theory Spec2Isabelle
  imports Complex_Main
begin

section \<open>The C++ type \<open>double\<close>: IEEE 754 binary64, round to nearest, ties to even\<close>

text \<open>
  Every amount, ratio and score of \<^verbatim>\<open>sample_legacy_trading.cpp\<close> is a C++ \<open>double\<close>.
  A value is a NaN, an infinity, the negative zero, or a finite real (\<open>Fin 0\<close> is the
  positive zero). The result of an operation on finite values is the exact real result
  rounded to the binary64 grid (53 significant bits, least exponent \<open>-1074\<close>), to the
  nearest value with ties to the even significand, and to an infinity at magnitude
  \<open>2 ^ 1024\<close>. Division by zero follows IEEE 754: it yields an infinity or a NaN and
  does not trap. Comparisons with a NaN are false. The type has more finite values than
  binary64 has (any real); what is proved for every value of the type holds for every
  \<open>double\<close>, and the concrete inputs below are binary64 values.
\<close>

datatype double = NaN | PInf | NInf | NZero | Fin real

fun ilog2_nat :: "nat \<Rightarrow> nat" where
  "ilog2_nat n = (if n < 2 then 0 else Suc (ilog2_nat (n div 2)))"

declare ilog2_nat.simps [simp del]

text \<open>\<open>ilog2 x\<close> is the integer \<open>e\<close> with \<open>2 ^ e \<le> x < 2 ^ (e + 1)\<close>, for \<open>0 < x\<close>.\<close>

definition ilog2 :: "real \<Rightarrow> int" where
  "ilog2 x = (if 1 \<le> x then int (ilog2_nat (nat \<lfloor>x\<rfloor>))
              else - int (Suc (ilog2_nat (nat (\<lceil>1 / x\<rceil> - 1)))))"

text \<open>The exponent of the unit in the last place of the binade of \<open>x\<close>.\<close>

definition ulp_exp :: "real \<Rightarrow> int" where
  "ulp_exp x = (if \<bar>x\<bar> < 1 / 2 ^ 1022 then - 1074 else ilog2 \<bar>x\<bar> - 52)"

text \<open>Rounding a real to the nearest integer, a tie to the even one.\<close>

definition rhe :: "real \<Rightarrow> int" where
  "rhe t = (let f = \<lfloor>t\<rfloor>; d = t - of_int f in
     if d < 1 / 2 then f
     else if 1 / 2 < d then f + 1
     else if even f then f else f + 1)"

definition rne :: "real \<Rightarrow> real" where
  "rne x = (let u = 2 powi ulp_exp x in of_int (rhe (x / u)) * u)"

definition mk_inf :: "bool \<Rightarrow> double" where
  "mk_inf negative = (if negative then NInf else PInf)"

definition mk_zero :: "bool \<Rightarrow> double" where
  "mk_zero negative = (if negative then NZero else Fin 0)"

definition fround :: "real \<Rightarrow> double" where
  "fround x = (let y = rne x in
     if 2 ^ 1024 \<le> \<bar>y\<bar> then mk_inf (x < 0)
     else if y = 0 then mk_zero (x < 0)
     else Fin y)"

fun is_nan :: "double \<Rightarrow> bool" where
  "is_nan NaN = True"
| "is_nan _ = False"

fun is_inf :: "double \<Rightarrow> bool" where
  "is_inf PInf = True"
| "is_inf NInf = True"
| "is_inf _ = False"

fun valof :: "double \<Rightarrow> real" where
  "valof (Fin r) = r"
| "valof _ = 0"

fun is_zero :: "double \<Rightarrow> bool" where
  "is_zero NZero = True"
| "is_zero (Fin r) = (r = 0)"
| "is_zero _ = False"

fun sign_bit :: "double \<Rightarrow> bool" where
  "sign_bit NInf = True"
| "sign_bit NZero = True"
| "sign_bit (Fin r) = (r < 0)"
| "sign_bit _ = False"

definition fadd :: "double \<Rightarrow> double \<Rightarrow> double" where
  "fadd a b =
     (if is_nan a \<or> is_nan b then NaN
      else if is_inf a then (if is_inf b \<and> sign_bit a \<noteq> sign_bit b then NaN else a)
      else if is_inf b then b
      else if valof a + valof b = 0
        then (if is_zero a \<and> is_zero b then mk_zero (sign_bit a \<and> sign_bit b) else Fin 0)
      else fround (valof a + valof b))"

definition fmul :: "double \<Rightarrow> double \<Rightarrow> double" where
  "fmul a b =
     (if is_nan a \<or> is_nan b then NaN
      else if (is_inf a \<and> is_zero b) \<or> (is_zero a \<and> is_inf b) then NaN
      else if is_inf a \<or> is_inf b then mk_inf (sign_bit a \<noteq> sign_bit b)
      else if is_zero a \<or> is_zero b then mk_zero (sign_bit a \<noteq> sign_bit b)
      else fround (valof a * valof b))"

definition fdiv :: "double \<Rightarrow> double \<Rightarrow> double" where
  "fdiv a b =
     (if is_nan a \<or> is_nan b then NaN
      else if is_inf a then (if is_inf b then NaN else mk_inf (sign_bit a \<noteq> sign_bit b))
      else if is_inf b then mk_zero (sign_bit a \<noteq> sign_bit b)
      else if is_zero b then (if is_zero a then NaN else mk_inf (sign_bit a \<noteq> sign_bit b))
      else if is_zero a then mk_zero (sign_bit a \<noteq> sign_bit b)
      else fround (valof a / valof b))"

text \<open>The operators \<open><\<close>, \<open><=\<close> and \<open>>\<close> on \<open>double\<close>.\<close>

fun flt :: "double \<Rightarrow> double \<Rightarrow> bool" where
  "flt NaN _ = False"
| "flt _ NaN = False"
| "flt PInf _ = False"
| "flt _ NInf = False"
| "flt NInf _ = True"
| "flt _ PInf = True"
| "flt a b = (valof a < valof b)"

fun fle :: "double \<Rightarrow> double \<Rightarrow> bool" where
  "fle NaN _ = False"
| "fle _ NaN = False"
| "fle NInf _ = True"
| "fle _ PInf = True"
| "fle PInf _ = False"
| "fle _ NInf = False"
| "fle a b = (valof a \<le> valof b)"

definition fgt :: "double \<Rightarrow> double \<Rightarrow> bool" where
  "fgt a b = flt b a"

text \<open>The \<open>double\<close> overload of \<open>abs\<close>.\<close>

fun fabs :: "double \<Rightarrow> double" where
  "fabs NaN = NaN"
| "fabs PInf = PInf"
| "fabs NInf = PInf"
| "fabs NZero = Fin 0"
| "fabs (Fin r) = Fin \<bar>r\<bar>"

text \<open>A decimal literal of the source denotes the nearest \<open>double\<close>; an \<open>int\<close> converts exactly.\<close>

definition dlit :: "real \<Rightarrow> double" where
  "dlit r = fround r"

definition double_of_int :: "int \<Rightarrow> double" where
  "double_of_int i = Fin (of_int i)"

text \<open>A value of the type is a binary64 value when rounding leaves it as it is.\<close>

fun is_binary64 :: "double \<Rightarrow> bool" where
  "is_binary64 (Fin r) = (fround r = Fin r)"
| "is_binary64 _ = True"

text \<open>The multiples of \<open>2 ^ -1074\<close>, the least positive binary64 value.\<close>

definition on_grid :: "real \<Rightarrow> bool" where
  "on_grid r = (\<exists>n::int. r = of_int n * 2 powi (- 1074))"


section \<open>Business rule constants\<close>

definition MAX_POSITION_SIZE :: double where
  "MAX_POSITION_SIZE = dlit 10000000"

definition MAX_DAILY_LOSS :: double where
  "MAX_DAILY_LOSS = dlit 500000"

definition MIN_ACCOUNT_BALANCE :: double where
  "MIN_ACCOUNT_BALANCE = dlit 50000"

definition MAX_LEVERAGE_RATIO :: double where
  "MAX_LEVERAGE_RATIO = dlit 10"

definition HIGH_RISK_THRESHOLD :: double where
  "HIGH_RISK_THRESHOLD = dlit (75 / 100)"

definition MAX_TRADES_PER_DAY :: int where
  "MAX_TRADES_PER_DAY = 100"

definition MARGIN_CALL_THRESHOLD :: double where
  "MARGIN_CALL_THRESHOLD = dlit (25 / 100)"

definition FORCED_LIQUIDATION :: double where
  "FORCED_LIQUIDATION = dlit (10 / 100)"

definition MIN_TRADING_EXPERIENCE :: int where
  "MIN_TRADING_EXPERIENCE = 2"

definition MAX_ORDER_SIZE :: double where
  "MAX_ORDER_SIZE = dlit 1000000"

definition PATTERN_DAY_TRADER_LIMIT :: int where
  "PATTERN_DAY_TRADER_LIMIT = 25000"

section \<open>Data model\<close>

text \<open>
  The three structs, field by field. The \<open>int\<close> fields and constants are only compared,
  never computed with, so they are integers here. The strings keep their values.
\<close>

record TraderProfile =
  trader_id :: int
  trader_name :: string
  experience_years :: int
  risk_level :: string
  account_balance :: double
  available_margin :: double
  trader_type :: string
  is_accredited :: bool
  jurisdiction :: string

record TradeOrder =
  order_id :: int
  symbol :: string
  order_type :: string
  quantity :: double
  price :: double
  time_in_force :: string
  is_margin_trade :: bool
  sector :: string
  volatility_score :: double

text \<open>The field \<open>symbol\<close> of a position is \<open>position_symbol\<close> here: an order has one too.\<close>

record PortfolioPosition =
  position_symbol :: string
  current_value :: double
  unrealized_pnl :: double
  sector_exposure :: double
  risk_category :: string

text \<open>
  The private members of \<open>TradingRiskManager\<close>: two \<open>std::map\<close>s keyed by trader id.
  Each function of the class returns the members as it leaves them, the lines it writes
  to \<open>std::cout\<close> in order, and its \<open>bool\<close> result.
\<close>

record TradingRiskManager =
  daily_trade_counts :: "int \<rightharpoonup> int"
  daily_losses :: "int \<rightharpoonup> double"

text \<open>
  \<open>std::map::operator[]\<close>: the value stored under the key; a key that is absent is
  first inserted with the value-initialised element (\<open>0\<close>, \<open>0.0\<close>).
\<close>

definition map_index :: "('k \<rightharpoonup> 'v) \<Rightarrow> 'k \<Rightarrow> 'v \<Rightarrow> ('k \<rightharpoonup> 'v) \<times> 'v" where
  "map_index m k dflt = (case m k of None \<Rightarrow> (m(k \<mapsto> dflt), dflt) | Some v \<Rightarrow> (m, v))"

section \<open>Trader eligibility\<close>

definition validateTraderEligibility :: "TraderProfile \<Rightarrow> string list \<times> bool" where
  "validateTraderEligibility trader =
     (if experience_years trader < MIN_TRADING_EXPERIENCE
        then ([''REJECTED: Trader lacks minimum experience''], False)
      else if flt (account_balance trader) MIN_ACCOUNT_BALANCE
        then ([''REJECTED: Insufficient account balance''], False)
      else if jurisdiction trader = ''RESTRICTED'' \<or> jurisdiction trader = ''SANCTIONED''
        then ([''REJECTED: Trader from restricted jurisdiction''], False)
      else if risk_level trader = ''HIGH'' \<and> \<not> is_accredited trader
        then ([''REJECTED: High-risk trading requires accreditation''], False)
      else if trader_type trader = ''RETAIL''
              \<and> flt (account_balance trader) (double_of_int PATTERN_DAY_TRADER_LIMIT)
        then ([''WARNING: Pattern Day Trader restrictions apply''], True)
      else ([], True))"

section \<open>Order validation\<close>

definition validateTradeOrder ::
  "TradingRiskManager \<Rightarrow> TradeOrder \<Rightarrow> TraderProfile
     \<Rightarrow> TradingRiskManager \<times> string list \<times> bool" where
  "validateTradeOrder mgr order trader =
     (let order_value = fmul (quantity order) (price order) in
      if fgt order_value MAX_ORDER_SIZE
        then (mgr, [''REJECTED: Order size exceeds maximum allowed''], False)
      else if fgt (volatility_score order) (dlit (8 / 10)) \<and> risk_level trader = ''LOW''
        then (mgr, [''REJECTED: High volatility instrument not allowed for low-risk trader''],
              False)
      else if order_type order = ''SHORT'' \<and> trader_type trader = ''RETAIL''
              \<and> fgt order_value (dlit 100000)
        then (mgr, [''REJECTED: Large short positions restricted for retail traders''], False)
      else if is_margin_trade order
              \<and> flt (available_margin trader) (fmul order_value (dlit (5 / 10)))
        then (mgr, [''REJECTED: Insufficient margin for trade''], False)
      else
        let (counts, n) = map_index (daily_trade_counts mgr) (trader_id trader) 0;
            mgr' = mgr\<lparr>daily_trade_counts := counts\<rparr>
        in
        if n \<ge> MAX_TRADES_PER_DAY
          then (mgr', [''REJECTED: Daily trade limit exceeded''], False)
        else
          let info = (if sector order \<noteq> ''DIVERSIFIED''
                      then [''INFO: Checking sector concentration limits''] else [])
          in
          if time_in_force order = ''EXTENDED_HOURS'' \<and> experience_years trader < 5
            then (mgr', info @ [''REJECTED: Insufficient experience for after-hours trading''],
                  False)
          else (mgr', info, True))"

section \<open>Portfolio risk\<close>

text \<open>
  The first loop of \<open>validatePortfolioRisk\<close>, over the accumulators
  \<open>(total_portfolio_value, total_unrealized_loss, high_risk_exposure)\<close>. The source
  calls \<open>abs\<close> unqualified; which overload that is (the \<open>double\<close> one, \<^const>\<open>fabs\<close>, or the
  C library's on \<open>int\<close>) depends on the standard headers, which are not part of the
  repository, so the function called is the parameter \<open>abs_fn\<close>.
\<close>

fun portfolio_metrics ::
  "(double \<Rightarrow> double) \<Rightarrow> PortfolioPosition list \<Rightarrow> double \<times> double \<times> double
     \<Rightarrow> double \<times> double \<times> double" where
  "portfolio_metrics abs_fn [] acc = acc"
| "portfolio_metrics abs_fn (position # rest) (total_value, unrealized_loss, high_risk) =
     portfolio_metrics abs_fn rest
       (fadd total_value (current_value position),
        (if flt (unrealized_pnl position) (double_of_int 0)
         then fadd unrealized_loss (abs_fn (unrealized_pnl position)) else unrealized_loss),
        (if risk_category position = ''HIGH_RISK''
         then fadd high_risk (current_value position) else high_risk))"

text \<open>
  The second loop: the output it writes, and whether it ran to its end (\<open>False\<close>: it
  returned from the function at a position above the maximum size).
\<close>

fun position_limits :: "double \<Rightarrow> PortfolioPosition list \<Rightarrow> string list \<times> bool" where
  "position_limits total_value [] = ([], True)"
| "position_limits total_value (position # rest) =
     (if fgt (current_value position) MAX_POSITION_SIZE
        then ([''VIOLATION: Position size exceeds maximum allowed''], False)
      else
        let warn = (if fgt (current_value position) (fmul total_value (dlit (20 / 100)))
                    then [''WARNING: Single position exceeds 20% of portfolio''] else []);
            (out, finished) = position_limits total_value rest
        in (warn @ out, finished))"

definition validatePortfolioRisk ::
  "(double \<Rightarrow> double) \<Rightarrow> PortfolioPosition list \<Rightarrow> TraderProfile \<Rightarrow> string list \<times> bool" where
  "validatePortfolioRisk abs_fn positions trader =
     (let (total_portfolio_value, total_unrealized_loss, high_risk_exposure) =
            portfolio_metrics abs_fn positions (dlit 0, dlit 0, dlit 0);
          loss_out =
            (if fgt total_unrealized_loss (fmul (account_balance trader) (dlit (20 / 100)))
             then [''WARNING: Portfolio losses exceed 20% of account balance''] else []);
          (limit_out, finished) = position_limits total_portfolio_value positions
      in
      if \<not> finished then (loss_out @ limit_out, False)
      else if fgt high_risk_exposure (fmul total_portfolio_value HIGH_RISK_THRESHOLD)
        then (loss_out @ limit_out @ [''VIOLATION: High-risk exposure exceeds threshold''],
              False)
      else
        let leverage_ratio = fdiv total_portfolio_value (account_balance trader) in
        if fgt leverage_ratio MAX_LEVERAGE_RATIO
          then (loss_out @ limit_out @ [''VIOLATION: Leverage ratio exceeds maximum allowed''],
                False)
        else
          let margin_equity_ratio = fdiv (account_balance trader) total_portfolio_value;
              call_out =
                (if flt margin_equity_ratio MARGIN_CALL_THRESHOLD
                 then [''MARGIN CALL: Account below margin maintenance requirement'']
                 else [])
          in
          if flt margin_equity_ratio FORCED_LIQUIDATION
            then (loss_out @ limit_out @ call_out
                    @ [''FORCED LIQUIDATION: Account below liquidation threshold''], False)
          else (loss_out @ limit_out @ call_out, True))"

text \<open>
  The values of the locals \<open>total_portfolio_value\<close>, \<open>leverage_ratio\<close> and
  \<open>margin_equity_ratio\<close> of \<open>validatePortfolioRisk\<close> (lines 162, 198 and 205), and the
  verdicts of the three comparisons made on the two ratios (lines 199, 206 and 211).
\<close>

definition total_value_of :: "(double \<Rightarrow> double) \<Rightarrow> PortfolioPosition list \<Rightarrow> double" where
  "total_value_of abs_fn positions =
     fst (portfolio_metrics abs_fn positions (dlit 0, dlit 0, dlit 0))"

definition leverage_ratio_of ::
  "(double \<Rightarrow> double) \<Rightarrow> PortfolioPosition list \<Rightarrow> TraderProfile \<Rightarrow> double" where
  "leverage_ratio_of abs_fn positions trader =
     fdiv (total_value_of abs_fn positions) (account_balance trader)"

definition margin_equity_ratio_of ::
  "(double \<Rightarrow> double) \<Rightarrow> PortfolioPosition list \<Rightarrow> TraderProfile \<Rightarrow> double" where
  "margin_equity_ratio_of abs_fn positions trader =
     fdiv (account_balance trader) (total_value_of abs_fn positions)"

definition leverage_margin_verdicts ::
  "(double \<Rightarrow> double) \<Rightarrow> PortfolioPosition list \<Rightarrow> TraderProfile \<Rightarrow> bool \<times> bool \<times> bool" where
  "leverage_margin_verdicts abs_fn positions trader =
     (fgt (leverage_ratio_of abs_fn positions trader) MAX_LEVERAGE_RATIO,
      flt (margin_equity_ratio_of abs_fn positions trader) MARGIN_CALL_THRESHOLD,
      flt (margin_equity_ratio_of abs_fn positions trader) FORCED_LIQUIDATION)"

text \<open>
  Lines 156 to 195 of \<open>validatePortfolioRisk\<close> on their own: the two loops, the loss
  warning and the high-risk check, up to the point where the leverage ratio is computed.
  The result is \<open>False\<close> when the function has returned by then.
\<close>

definition portfolio_checks_before_leverage ::
  "(double \<Rightarrow> double) \<Rightarrow> PortfolioPosition list \<Rightarrow> TraderProfile \<Rightarrow> string list \<times> bool" where
  "portfolio_checks_before_leverage abs_fn positions trader =
     (let (total_portfolio_value, total_unrealized_loss, high_risk_exposure) =
            portfolio_metrics abs_fn positions (dlit 0, dlit 0, dlit 0);
          loss_out =
            (if fgt total_unrealized_loss (fmul (account_balance trader) (dlit (20 / 100)))
             then [''WARNING: Portfolio losses exceed 20% of account balance''] else []);
          (limit_out, finished) = position_limits total_portfolio_value positions
      in
      if \<not> finished then (loss_out @ limit_out, False)
      else if fgt high_risk_exposure (fmul total_portfolio_value HIGH_RISK_THRESHOLD)
        then (loss_out @ limit_out @ [''VIOLATION: High-risk exposure exceeds threshold''],
              False)
      else (loss_out @ limit_out, True))"

section \<open>Daily loss monitoring\<close>

definition checkDailyLossLimits ::
  "TradingRiskManager \<Rightarrow> int \<Rightarrow> double \<Rightarrow> TradingRiskManager \<times> string list \<times> bool" where
  "checkDailyLossLimits mgr tid trade_loss =
     (let (losses, old) = map_index (daily_losses mgr) tid (dlit 0);
          new = fadd old trade_loss;
          mgr' = mgr\<lparr>daily_losses := losses(tid \<mapsto> new)\<rparr>
      in
      if fgt new MAX_DAILY_LOSS
        then (mgr', [''TRADING SUSPENDED: Daily loss limit exceeded''], False)
      else if fgt new (fmul MAX_DAILY_LOSS (dlit (75 / 100)))
        then (mgr', [''WARNING: Approaching daily loss limit''], True)
      else (mgr', [], True))"

section \<open>Risk score\<close>

definition calculateRiskScore :: "TraderProfile \<Rightarrow> TradeOrder \<Rightarrow> double" where
  "calculateRiskScore trader order =
     (let risk_score = dlit 0;
          risk_score = (if experience_years trader < 3
                        then fadd risk_score (dlit (3 / 10)) else risk_score);
          risk_score = (if flt (account_balance trader) (dlit 100000)
                        then fadd risk_score (dlit (2 / 10)) else risk_score);
          order_value = fmul (quantity order) (price order);
          risk_score = (if fgt order_value (fmul (account_balance trader) (dlit (1 / 10)))
                        then fadd risk_score (dlit (4 / 10)) else risk_score);
          risk_score = fadd risk_score (fmul (volatility_score order) (dlit (5 / 10)));
          risk_score = (if sector order = ''BIOTECH'' \<or> sector order = ''CRYPTO''
                        then fadd risk_score (dlit (3 / 10)) else risk_score)
      in risk_score)"

section \<open>Notions used in the statements\<close>

text \<open>What \<open>daily_trade_counts[id]\<close> and \<open>daily_losses[id]\<close> read: the stored value, or zero.\<close>

definition trades_today :: "TradingRiskManager \<Rightarrow> int \<Rightarrow> int" where
  "trades_today mgr tid = (case daily_trade_counts mgr tid of None \<Rightarrow> 0 | Some n \<Rightarrow> n)"

definition losses_today :: "TradingRiskManager \<Rightarrow> int \<Rightarrow> double" where
  "losses_today mgr tid = (case daily_losses mgr tid of None \<Rightarrow> dlit 0 | Some v \<Rightarrow> v)"


text \<open>The sum of the current values as real numbers, with no rounding.\<close>

definition exact_total_value :: "PortfolioPosition list \<Rightarrow> real" where
  "exact_total_value positions = (\<Sum>position \<leftarrow> positions. valof (current_value position))"

text \<open>Multiplying the account balance, and every position's current value, by \<open>k\<close>.\<close>

definition scale_trader :: "double \<Rightarrow> TraderProfile \<Rightarrow> TraderProfile" where
  "scale_trader k trader = trader\<lparr>account_balance := fmul k (account_balance trader)\<rparr>"

definition scale_positions :: "double \<Rightarrow> PortfolioPosition list \<Rightarrow> PortfolioPosition list" where
  "scale_positions k positions =
     map (\<lambda>position. position\<lparr>current_value := fmul k (current_value position)\<rparr>) positions"

text \<open>The trader and the order that \<open>main\<close> builds, and a manager with empty maps.\<close>

definition sample_trader :: TraderProfile where
  "sample_trader = \<lparr>trader_id = 123, trader_name = ''John Trader'', experience_years = 5,
     risk_level = ''MEDIUM'', account_balance = dlit 250000, available_margin = dlit 100000,
     trader_type = ''RETAIL'', is_accredited = True, jurisdiction = ''US''\<rparr>"

definition sample_order :: TradeOrder where
  "sample_order = \<lparr>order_id = 1001, symbol = ''AAPL'', order_type = ''BUY'',
     quantity = double_of_int 1000, price = dlit 150, time_in_force = ''DAY'',
     is_margin_trade = False, sector = ''TECHNOLOGY'', volatility_score = dlit (3 / 10)\<rparr>"

definition new_manager :: TradingRiskManager where
  "new_manager = \<lparr>daily_trade_counts = Map.empty, daily_losses = Map.empty\<rparr>"

text \<open>What \<open>main\<close> writes to \<open>std::cout\<close>.\<close>

definition main_output :: "string list" where
  "main_output =
     (let (out, eligible) = validateTraderEligibility sample_trader in
      if eligible
        then
          let (mgr, out', valid) = validateTradeOrder new_manager sample_order sample_trader
          in if valid then out @ out' @ [''ORDER APPROVED''] else out @ out'
      else out)"

text \<open>A single position worth 700,000, free of loss and not of high risk.\<close>

definition sample_position :: PortfolioPosition where
  "sample_position = \<lparr>position_symbol = ''AAPL'', current_value = dlit 700000,
     unrealized_pnl = dlit 0, sector_exposure = dlit 0, risk_category = ''LOW_RISK''\<rparr>"

section \<open>Properties of rounding\<close>

lemma ilog2_nat_bounds:
  "1 \<le> n \<Longrightarrow> 2 ^ ilog2_nat n \<le> n \<and> n < 2 ^ Suc (ilog2_nat n)"
proof (induction n rule: ilog2_nat.induct)
  case (1 n)
  show ?case
  proof (cases "n < 2")
    case True
    with "1.prems" show ?thesis by (simp add: ilog2_nat.simps)
  next
    case False
    then have h: "1 \<le> n div 2" by simp
    from "1.IH"[OF False h]
    have "2 ^ ilog2_nat (n div 2) \<le> n div 2" "n div 2 < 2 ^ Suc (ilog2_nat (n div 2))"
      by simp_all
    moreover have "ilog2_nat n = Suc (ilog2_nat (n div 2))"
      using False by (subst ilog2_nat.simps) simp
    moreover have "2 * (n div 2) \<le> n" "n < 2 * (n div 2) + 2" by simp_all
    ultimately show ?thesis by simp
  qed
qed

lemma ilog2_ge1:
  assumes "1 \<le> x"
  shows "2 powi ilog2 x \<le> x" and "x < 2 powi (ilog2 x + 1)"
proof -
  define n where "n = nat \<lfloor>x\<rfloor>"
  define k where "k = ilog2_nat n"
  have n1: "1 \<le> n" using assms by (simp add: n_def le_nat_floor)
  have il: "ilog2 x = int k" using assms by (simp add: ilog2_def n_def k_def)
  have b: "2 ^ k \<le> n" "n < 2 ^ Suc k" using ilog2_nat_bounds[OF n1] by (simp_all add: k_def)
  have "(2::real) ^ k = real (2 ^ k)" by simp
  also have "\<dots> \<le> real n" using b(1) by (simp only: of_nat_le_iff)
  also have "real n \<le> x" using assms by (simp add: n_def)
  finally show "2 powi ilog2 x \<le> x" by (simp add: il)
  have "\<lfloor>x\<rfloor> = int n" using assms by (simp add: n_def)
  then have "x < real n + 1" by linarith
  also have "real n + 1 \<le> real (2 ^ Suc k)"
  proof -
    have "Suc n \<le> 2 ^ Suc k" using b(2) by simp
    then have "real (Suc n) \<le> real (2 ^ Suc k)" by (simp only: of_nat_le_iff)
    then show ?thesis by simp
  qed
  also have "\<dots> = 2 ^ Suc k" by simp
  finally have "x < 2 ^ Suc k" .
  moreover have "(2::real) powi (int k + 1) = 2 ^ Suc k"
    by (metis of_nat_Suc power_int_of_nat add.commute)
  ultimately show "x < 2 powi (ilog2 x + 1)" by (simp only: il)
qed

lemma ilog2_lt1:
  assumes "0 < x" "x < 1"
  shows "2 powi ilog2 x \<le> x" and "x < 2 powi (ilog2 x + 1)"
proof -
  define c where "c = \<lceil>1 / x\<rceil>"
  define n where "n = nat (c - 1)"
  define k where "k = ilog2_nat n"
  have y1: "1 < 1 / x" using assms by simp
  then have c2: "2 \<le> c" unfolding c_def by linarith
  have n1: "1 \<le> n" using c2 by (simp add: n_def)
  have il: "ilog2 x = - int (Suc k)" using assms by (simp add: ilog2_def n_def k_def c_def)
  have b: "2 ^ k \<le> n" "n < 2 ^ Suc k" using ilog2_nat_bounds[OF n1] by (simp_all add: k_def)
  have cn: "c = int n + 1" using c2 by (simp add: n_def)
  have "1 / x \<le> of_int c" unfolding c_def by linarith
  also have "of_int c = real n + 1" by (simp add: cn)
  also have "real n + 1 \<le> real (2 ^ Suc k)"
  proof -
    have "Suc n \<le> 2 ^ Suc k" using b(2) by simp
    then have "real (Suc n) \<le> real (2 ^ Suc k)" by (simp only: of_nat_le_iff)
    then show ?thesis by simp
  qed
  also have "\<dots> = 2 ^ Suc k" by simp
  finally have "1 / x \<le> 2 ^ Suc k" .
  then have "1 \<le> 2 ^ Suc k * x" using assms(1) by (simp add: pos_divide_le_eq)
  then have "1 / 2 ^ Suc k \<le> x" by (simp add: pos_divide_le_eq mult.commute)
  moreover have "(2::real) powi (- int (Suc k)) = 1 / 2 ^ Suc k"
    by (simp only: power_int_minus power_int_of_nat inverse_eq_divide)
  ultimately show "2 powi ilog2 x \<le> x" by (simp only: il)
  have "(2::real) ^ k = real (2 ^ k)" by simp
  also have "\<dots> \<le> real n" using b(1) by (simp only: of_nat_le_iff)
  also have "real n = of_int c - 1" by (simp add: cn)
  also have "\<dots> < 1 / x" unfolding c_def by linarith
  finally have "2 ^ k < 1 / x" .
  then have "2 ^ k * x < 1" using assms(1) by (simp add: pos_less_divide_eq)
  then have "x < 1 / 2 ^ k" by (simp add: pos_less_divide_eq mult.commute)
  moreover have "(2::real) powi (- int (Suc k) + 1) = 1 / 2 ^ k"
  proof -
    have "- int (Suc k) + 1 = - int k" by simp
    then show ?thesis by (simp only: power_int_minus power_int_of_nat inverse_eq_divide)
  qed
  ultimately show "x < 2 powi (ilog2 x + 1)" by (simp only: il)
qed

lemma ilog2_bounds:
  assumes "0 < x"
  shows "2 powi ilog2 x \<le> x" and "x < 2 powi (ilog2 x + 1)"
  using assms ilog2_ge1[of x] ilog2_lt1[of x] by (cases "1 \<le> x"; simp)+

lemma powi2_less_cancel: "(2::real) powi a < 2 powi b \<Longrightarrow> a < b"
  by (meson not_less one_le_numeral power_int_increasing)

lemma ilog2_mono:
  assumes "0 < x" "x \<le> y"
  shows "ilog2 x \<le> ilog2 y"
proof -
  have "2 powi ilog2 x \<le> x" using ilog2_bounds(1)[OF assms(1)] .
  also have "x \<le> y" by fact
  also have "y < 2 powi (ilog2 y + 1)" using ilog2_bounds(2)[of y] assms by simp
  finally show ?thesis using powi2_less_cancel by fastforce
qed

lemma sub_threshold: "(1::real) / 2 ^ 1022 = 2 powi (- 1022)"
proof -
  have "(2::real) powi (- int 1022) = 1 / 2 ^ 1022"
    by (simp only: power_int_minus power_int_of_nat inverse_eq_divide)
  then show ?thesis by simp
qed

lemma powi2_mono: "a \<le> b \<Longrightarrow> (2::real) powi a \<le> 2 powi b"
  by (rule power_int_increasing) simp_all

lemma powi2_pos: "0 < (2::real) powi a"
  by (rule zero_less_power_int) simp

lemma ulp_exp_ge: "- 1074 \<le> ulp_exp x"
proof (cases "\<bar>x\<bar> < 1 / 2 ^ 1022")
  case True
  then show ?thesis by (simp add: ulp_exp_def)
next
  case False
  then have ge: "2 powi (- 1022) \<le> \<bar>x\<bar>" by (simp only: sub_threshold not_less)
  then have pos: "0 < \<bar>x\<bar>" using powi2_pos[of "- 1022"] by linarith
  have "2 powi (- 1022) < (2::real) powi (ilog2 \<bar>x\<bar> + 1)"
    using ge ilog2_bounds(2)[OF pos] by linarith
  then have "- 1022 < ilog2 \<bar>x\<bar> + 1" by (rule powi2_less_cancel)
  then show ?thesis using False by (simp add: ulp_exp_def)
qed

lemma ulp_exp_upper: "\<bar>x\<bar> < 2 powi (ulp_exp x + 53)"
proof (cases "\<bar>x\<bar> < 1 / 2 ^ 1022")
  case True
  then have "\<bar>x\<bar> < 2 powi (- 1022)" by (simp only: sub_threshold)
  also have "(2::real) powi (- 1022) \<le> 2 powi (- 1074 + 53)" by (rule powi2_mono) simp
  finally show ?thesis using True by (simp add: ulp_exp_def)
next
  case False
  then have ge: "2 powi (- 1022) \<le> \<bar>x\<bar>" by (simp only: sub_threshold not_less)
  then have pos: "0 < \<bar>x\<bar>" using powi2_pos[of "- 1022"] by linarith
  have e: "ulp_exp x + 53 = ilog2 \<bar>x\<bar> + 1" using False by (simp add: ulp_exp_def)
  show ?thesis unfolding e by (rule ilog2_bounds(2)[OF pos])
qed

lemma ulp_exp_lower: "- 1074 < ulp_exp x \<Longrightarrow> 2 powi (ulp_exp x + 52) \<le> \<bar>x\<bar>"
proof (cases "\<bar>x\<bar> < 1 / 2 ^ 1022")
  case True
  moreover assume "- 1074 < ulp_exp x"
  ultimately show ?thesis by (simp add: ulp_exp_def)
next
  case False
  then have ge: "2 powi (- 1022) \<le> \<bar>x\<bar>" by (simp only: sub_threshold not_less)
  then have pos: "0 < \<bar>x\<bar>" using powi2_pos[of "- 1022"] by linarith
  have e: "ulp_exp x + 52 = ilog2 \<bar>x\<bar>" using False by (simp add: ulp_exp_def)
  show ?thesis unfolding e by (rule ilog2_bounds(1)[OF pos])
qed

lemma ulp_exp_mono: "\<bar>x\<bar> \<le> \<bar>y\<bar> \<Longrightarrow> ulp_exp x \<le> ulp_exp y"
proof (cases "\<bar>x\<bar> < 1 / 2 ^ 1022")
  case True
  then have "ulp_exp x = - 1074" by (simp add: ulp_exp_def)
  then show ?thesis using ulp_exp_ge[of y] by simp
next
  case False
  assume le: "\<bar>x\<bar> \<le> \<bar>y\<bar>"
  from False have ge: "2 powi (- 1022) \<le> \<bar>x\<bar>" by (simp only: sub_threshold not_less)
  then have pos: "0 < \<bar>x\<bar>" using powi2_pos[of "- 1022"] by linarith
  have "\<not> \<bar>y\<bar> < 1 / 2 ^ 1022" using False le by linarith
  then show ?thesis using False ilog2_mono[OF pos le] by (simp add: ulp_exp_def)
qed

lemma rhe_cases: "rhe t = \<lfloor>t\<rfloor> \<or> (rhe t = \<lfloor>t\<rfloor> + 1 \<and> of_int \<lfloor>t\<rfloor> < t)"
  by (auto simp: rhe_def Let_def)

lemma rhe_le_int: "t \<le> of_int n \<Longrightarrow> rhe t \<le> n"
proof -
  assume h: "t \<le> of_int n"
  then have f: "\<lfloor>t\<rfloor> \<le> n" using floor_mono[of t "of_int n"] by simp
  show ?thesis
  proof (cases "rhe t = \<lfloor>t\<rfloor>")
    case True
    then show ?thesis using f by simp
  next
    case False
    then have r: "rhe t = \<lfloor>t\<rfloor> + 1" and lt: "of_int \<lfloor>t\<rfloor> < t" using rhe_cases[of t] by auto
    have "\<lfloor>t\<rfloor> \<noteq> n" using lt h by auto
    then show ?thesis using f r by simp
  qed
qed

lemma rhe_ge_int: "of_int n \<le> t \<Longrightarrow> n \<le> rhe t"
proof -
  assume "of_int n \<le> t"
  then have "n \<le> \<lfloor>t\<rfloor>" by (simp add: le_floor_iff)
  then show ?thesis using rhe_cases[of t] by auto
qed

lemma rhe_mono: "s \<le> t \<Longrightarrow> rhe s \<le> rhe t"
proof -
  assume st: "s \<le> t"
  then have fl: "\<lfloor>s\<rfloor> \<le> \<lfloor>t\<rfloor>" by (rule floor_mono)
  show ?thesis
  proof (cases "\<lfloor>s\<rfloor> = \<lfloor>t\<rfloor>")
    case True
    then show ?thesis using st by (auto simp: rhe_def Let_def)
  next
    case False
    then have "\<lfloor>s\<rfloor> + 1 \<le> \<lfloor>t\<rfloor>" using fl by simp
    moreover have "rhe s \<le> \<lfloor>s\<rfloor> + 1" using rhe_cases[of s] by auto
    moreover have "\<lfloor>t\<rfloor> \<le> rhe t" using rhe_cases[of t] by auto
    ultimately show ?thesis by linarith
  qed
qed

lemma rne_zero: "rne 0 = 0"
  by (simp add: rne_def rhe_def)

lemma rne_le_grid:
  assumes "x \<le> of_int n * 2 powi ulp_exp x"
  shows "rne x \<le> of_int n * 2 powi ulp_exp x"
proof -
  let ?u = "(2::real) powi ulp_exp x"
  have u: "0 < ?u" by (rule powi2_pos)
  have "x / ?u \<le> of_int n" using assms u by (simp add: pos_divide_le_eq)
  then have "rhe (x / ?u) \<le> n" by (rule rhe_le_int)
  then have "of_int (rhe (x / ?u)) * ?u \<le> of_int n * ?u" using u by simp
  then show ?thesis by (simp add: rne_def Let_def)
qed

lemma rne_ge_grid:
  assumes "of_int n * 2 powi ulp_exp x \<le> x"
  shows "of_int n * 2 powi ulp_exp x \<le> rne x"
proof -
  let ?u = "(2::real) powi ulp_exp x"
  have u: "0 < ?u" by (rule powi2_pos)
  have "of_int n \<le> x / ?u" using assms u by (simp add: pos_le_divide_eq)
  then have "n \<le> rhe (x / ?u)" by (rule rhe_ge_int)
  then have "of_int n * ?u \<le> of_int (rhe (x / ?u)) * ?u" using u by simp
  then show ?thesis by (simp add: rne_def Let_def)
qed

lemma powi2_split: "(2::real) powi (e + int k) = of_int (2 ^ k) * 2 powi e"
  by (simp add: power_int_add power_int_of_nat mult.commute del: of_int_power)

lemma rne_nonneg: "0 \<le> x \<Longrightarrow> 0 \<le> rne x"
  using rne_ge_grid[of 0 x] by simp

lemma rne_nonpos: "x \<le> 0 \<Longrightarrow> rne x \<le> 0"
  using rne_le_grid[of x 0] by simp

lemma rne_upper: "rne x \<le> 2 powi (ulp_exp x + 53)"
proof -
  have "x \<le> 2 powi (ulp_exp x + int 53)" using ulp_exp_upper[of x] by simp
  then have "x \<le> of_int (2 ^ 53) * 2 powi ulp_exp x" by (simp only: powi2_split)
  then have "rne x \<le> of_int (2 ^ 53) * 2 powi ulp_exp x" by (rule rne_le_grid)
  then have "rne x \<le> 2 powi (ulp_exp x + int 53)" by (simp only: powi2_split)
  then show ?thesis by simp
qed

lemma rne_lower_neg: "- (2 powi (ulp_exp x + 53)) \<le> rne x"
proof -
  have "- (2 powi (ulp_exp x + int 53)) \<le> x" using ulp_exp_upper[of x] by simp
  then have "of_int (- (2 ^ 53)) * 2 powi ulp_exp x \<le> x" by (simp only: powi2_split of_int_minus mult_minus_left)
  then have "of_int (- (2 ^ 53)) * 2 powi ulp_exp x \<le> rne x" by (rule rne_ge_grid)
  then have "- (2 powi (ulp_exp x + int 53)) \<le> rne x" by (simp only: powi2_split of_int_minus mult_minus_left)
  then show ?thesis by simp
qed

lemma rne_lower_pos:
  assumes "- 1074 < ulp_exp x" "0 \<le> x"
  shows "2 powi (ulp_exp x + 52) \<le> rne x"
proof -
  have "2 powi (ulp_exp x + int 52) \<le> x" using ulp_exp_lower[OF assms(1)] assms(2) by simp
  then have "of_int (2 ^ 52) * 2 powi ulp_exp x \<le> x" by (simp only: powi2_split)
  then have "of_int (2 ^ 52) * 2 powi ulp_exp x \<le> rne x" by (rule rne_ge_grid)
  then have "2 powi (ulp_exp x + int 52) \<le> rne x" by (simp only: powi2_split)
  then show ?thesis by simp
qed

lemma rne_upper_neg:
  assumes "- 1074 < ulp_exp x" "x \<le> 0"
  shows "rne x \<le> - (2 powi (ulp_exp x + 52))"
proof -
  have "x \<le> - (2 powi (ulp_exp x + int 52))" using ulp_exp_lower[OF assms(1)] assms(2) by simp
  then have "x \<le> of_int (- (2 ^ 52)) * 2 powi ulp_exp x" by (simp only: powi2_split of_int_minus mult_minus_left)
  then have "rne x \<le> of_int (- (2 ^ 52)) * 2 powi ulp_exp x" by (rule rne_le_grid)
  then have "rne x \<le> - (2 powi (ulp_exp x + int 52))" by (simp only: powi2_split of_int_minus mult_minus_left)
  then show ?thesis by simp
qed

lemma rne_mono:
  assumes xy: "x \<le> y"
  shows "rne x \<le> rne y"
proof (cases "ulp_exp x = ulp_exp y")
  case True
  let ?u = "(2::real) powi ulp_exp y"
  have u: "0 < ?u" by (rule powi2_pos)
  have "x / ?u \<le> y / ?u" using xy u by (simp add: divide_right_mono)
  then have "rhe (x / ?u) \<le> rhe (y / ?u)" by (rule rhe_mono)
  then have "of_int (rhe (x / ?u)) * ?u \<le> of_int (rhe (y / ?u)) * ?u" using u by simp
  then show ?thesis using True by (simp add: rne_def Let_def)
next
  case False
  consider (pos) "0 \<le> x" | (neg) "y \<le> 0" | (mid) "x < 0" "0 < y" by linarith
  then show ?thesis
  proof cases
    case pos
    then have "\<bar>x\<bar> \<le> \<bar>y\<bar>" using xy by simp
    then have lt: "ulp_exp x < ulp_exp y" using ulp_exp_mono[of x y] False by simp
    then have "- 1074 < ulp_exp y" using ulp_exp_ge[of x] by simp
    then have "2 powi (ulp_exp y + 52) \<le> rne y" using rne_lower_pos[of y] pos xy by simp
    moreover have "(2::real) powi (ulp_exp x + 53) \<le> 2 powi (ulp_exp y + 52)"
      using lt by (intro powi2_mono) simp
    ultimately show ?thesis using rne_upper[of x] by linarith
  next
    case neg
    then have "\<bar>y\<bar> \<le> \<bar>x\<bar>" using xy by simp
    then have lt: "ulp_exp y < ulp_exp x" using ulp_exp_mono[of y x] False by simp
    then have "- 1074 < ulp_exp x" using ulp_exp_ge[of y] by simp
    then have "rne x \<le> - (2 powi (ulp_exp x + 52))" using rne_upper_neg[of x] neg xy by simp
    moreover have "(2::real) powi (ulp_exp y + 53) \<le> 2 powi (ulp_exp x + 52)"
      using lt by (intro powi2_mono) simp
    ultimately show ?thesis using rne_lower_neg[of y] by linarith
  next
    case mid
    then show ?thesis using rne_nonpos[of x] rne_nonneg[of y] by simp
  qed
qed

section \<open>Evaluating literals and constants\<close>

lemma ilog2_nat_numeral [simp]:
  "ilog2_nat (numeral k) = (if numeral k < (2::nat) then 0 else Suc (ilog2_nat (numeral k div 2)))"
  "ilog2_nat 0 = 0" "ilog2_nat 1 = 0" "ilog2_nat (Suc 0) = 0"
  by (simp_all add: ilog2_nat.simps)

lemmas double_eval = dlit_def fround_def rne_def ulp_exp_def rhe_def ilog2_def Let_def
  mk_zero_def mk_inf_def

lemma fround_0: "fround 0 = Fin 0"
  by (simp add: double_eval)

lemma consts_eval:
  "MAX_POSITION_SIZE = Fin 10000000"
  "MAX_DAILY_LOSS = Fin 500000"
  "MIN_ACCOUNT_BALANCE = Fin 50000"
  "MAX_LEVERAGE_RATIO = Fin 10"
  "HIGH_RISK_THRESHOLD = Fin (3 / 4)"
  "MARGIN_CALL_THRESHOLD = Fin (1 / 4)"
  "FORCED_LIQUIDATION = Fin (3602879701896397 / 36028797018963968)"
  "MAX_ORDER_SIZE = Fin 1000000"
  by (simp_all add: MAX_POSITION_SIZE_def MAX_DAILY_LOSS_def MIN_ACCOUNT_BALANCE_def
      MAX_LEVERAGE_RATIO_def HIGH_RISK_THRESHOLD_def MARGIN_CALL_THRESHOLD_def
      FORCED_LIQUIDATION_def MAX_ORDER_SIZE_def double_eval)

lemma lits_eval:
  "dlit 0 = Fin 0"
  "dlit (3 / 10) = Fin (5404319552844595 / 18014398509481984)"
  "dlit (2 / 10) = Fin (3602879701896397 / 18014398509481984)"
  "dlit (4 / 10) = Fin (3602879701896397 / 9007199254740992)"
  "dlit (5 / 10) = Fin (1 / 2)"
  "dlit (1 / 10) = Fin (3602879701896397 / 36028797018963968)"
  "dlit (8 / 10) = Fin (3602879701896397 / 4503599627370496)"
  "dlit (75 / 100) = Fin (3 / 4)"
  "dlit (20 / 100) = Fin (3602879701896397 / 18014398509481984)"
  "dlit 100000 = Fin 100000"
  by (simp_all add: double_eval)

text \<open>
  Some values of the arithmetic, as every IEEE 754 implementation computes them: \<open>1 / 3\<close>,
  two ties (to the even significand), \<open>0.1 + 0.2 = 0.30000000000000004\<close>,
  \<open>1e16 + 1 = 1e16\<close>, an exact cancellation, \<open>3 * (1 / 3) = 1\<close> and \<open>-7 / 0.1 = -70\<close>.
\<close>

lemma rounding_examples:
  "fround (1 / 3) = Fin (6004799503160661 / 18014398509481984)"
  "fround (2 ^ 53 + 1) = Fin (2 ^ 53)"
  "fround (2 ^ 53 + 3) = Fin (2 ^ 53 + 4)"
  "fadd (dlit (1 / 10)) (dlit (2 / 10)) = Fin (1351079888211149 / 4503599627370496)"
  "fadd (Fin 10000000000000000) (Fin 1) = Fin 10000000000000000"
  "fadd (Fin (- 3 / 2)) (Fin (3 / 2)) = Fin 0"
  "fmul (Fin 3) (Fin (6004799503160661 / 18014398509481984)) = Fin 1"
  "fdiv (Fin (- 7)) (dlit (1 / 10)) = Fin (- 70)"
  by (simp_all add: fadd_def fmul_def fdiv_def double_eval)

text \<open>The same literals with their fractions in lowest terms, as the simplifier writes them.\<close>

lemma lits_normal:
  "dlit (1 / 5) = Fin (3602879701896397 / 18014398509481984)"
  "dlit (2 / 5) = Fin (3602879701896397 / 9007199254740992)"
  "dlit (1 / 2) = Fin (1 / 2)"
  "dlit (4 / 5) = Fin (3602879701896397 / 4503599627370496)"
  "dlit (3 / 4) = Fin (3 / 4)"
  "dlit (1 / 4) = Fin (1 / 4)"
  using lits_eval consts_eval(6) by (simp_all add: MARGIN_CALL_THRESHOLD_def)

section \<open>Monotonicity of the arithmetic\<close>

lemma fround_not_nan: "\<not> is_nan (fround x)"
  by (simp add: fround_def Let_def mk_inf_def mk_zero_def)

lemma fround_mono:
  assumes xy: "x \<le> y"
  shows "fle (fround x) (fround y)"
proof -
  define B :: real where "B = 2 ^ 1024"
  have B: "0 < B" by (simp add: B_def)
  have ab: "rne x \<le> rne y" using xy by (rule rne_mono)
  have sx: "x < 0 \<Longrightarrow> rne x \<le> 0" "\<not> x < 0 \<Longrightarrow> 0 \<le> rne x"
    using rne_nonpos[of x] rne_nonneg[of x] by simp_all
  have sy: "y < 0 \<Longrightarrow> rne y \<le> 0" "\<not> y < 0 \<Longrightarrow> 0 \<le> rne y"
    using rne_nonpos[of y] rne_nonneg[of y] by simp_all
  have fx: "fround x = (if B \<le> \<bar>rne x\<bar> then mk_inf (x < 0)
      else if rne x = 0 then mk_zero (x < 0) else Fin (rne x))"
    by (simp only: fround_def Let_def B_def)
  have fy: "fround y = (if B \<le> \<bar>rne y\<bar> then mk_inf (y < 0)
      else if rne y = 0 then mk_zero (y < 0) else Fin (rne y))"
    by (simp only: fround_def Let_def B_def)
  show ?thesis
    unfolding fx fy using ab sx sy B xy
    by (auto simp: mk_inf_def mk_zero_def)
qed

lemma fle_zero_left: "is_zero z \<Longrightarrow> is_zero z' \<Longrightarrow> fle z d = fle z' d"
  by (cases z; cases z'; cases d) simp_all

lemma fle_zero_right: "is_zero z \<Longrightarrow> is_zero z' \<Longrightarrow> fle d z = fle d z'"
  by (cases z; cases z'; cases d) simp_all

lemma is_zero_mk_zero: "is_zero (mk_zero s)"
  by (simp add: mk_zero_def)

lemma fle_NInf: "\<not> is_nan d \<Longrightarrow> fle NInf d"
  by (cases d) simp_all

lemma fle_PInf: "\<not> is_nan d \<Longrightarrow> fle d PInf"
  by (cases d) simp_all

lemma fadd_finite_left:
  assumes "\<not> is_nan a" "\<not> is_inf a" "\<not> is_nan b" "\<not> is_inf b"
  shows "fle (fadd a b) d = fle (fround (valof a + valof b)) d"
proof (cases "valof a + valof b = 0")
  case True
  then have "is_zero (fadd a b)" using assms by (simp add: fadd_def is_zero_mk_zero)
  then show ?thesis using True fle_zero_left[of "fadd a b" "Fin 0" d] by (simp add: fround_0)
next
  case False
  then show ?thesis using assms by (simp add: fadd_def)
qed

lemma fadd_finite_right:
  assumes "\<not> is_nan a" "\<not> is_inf a" "\<not> is_nan b" "\<not> is_inf b"
  shows "fle d (fadd a b) = fle d (fround (valof a + valof b))"
proof (cases "valof a + valof b = 0")
  case True
  then have "is_zero (fadd a b)" using assms by (simp add: fadd_def is_zero_mk_zero)
  then show ?thesis using True fle_zero_right[of "fadd a b" "Fin 0" d] by (simp add: fround_0)
next
  case False
  then show ?thesis using assms by (simp add: fadd_def)
qed

lemma fadd_not_nan:
  "\<not> is_nan a \<Longrightarrow> \<not> is_inf a \<Longrightarrow> \<not> is_nan b \<Longrightarrow> \<not> is_nan (fadd a b)"
  by (cases b) (simp_all add: fadd_def fround_not_nan mk_zero_def)

lemma fle_not_nan: "fle a b \<Longrightarrow> \<not> is_nan a \<and> \<not> is_nan b"
  by (cases a; cases b) simp_all

lemma fle_valof:
  "\<not> is_nan a \<Longrightarrow> \<not> is_inf a \<Longrightarrow> \<not> is_nan b \<Longrightarrow> \<not> is_inf b \<Longrightarrow> fle a b = (valof a \<le> valof b)"
  by (cases a; cases b) simp_all

lemma fadd_mono_right:
  assumes a: "\<not> is_nan a" "\<not> is_inf a" and bc: "fle b c"
  shows "fle (fadd a b) (fadd a c)"
proof -
  have nb: "\<not> is_nan b" and nc: "\<not> is_nan c" using fle_not_nan[OF bc] by simp_all
  show ?thesis
  proof (cases "is_inf b \<or> is_inf c")
    case True
    have "b = NInf \<or> c = PInf" using True bc by (cases b; cases c) simp_all
    then show ?thesis
    proof
      assume "b = NInf"
      then have "fadd a b = NInf" using a by (simp add: fadd_def)
      then show ?thesis using fadd_not_nan[OF a nc] by (simp add: fle_NInf)
    next
      assume "c = PInf"
      then have "fadd a c = PInf" using a by (simp add: fadd_def)
      then show ?thesis using fadd_not_nan[OF a nb] by (simp add: fle_PInf)
    qed
  next
    case False
    then have ib: "\<not> is_inf b" and ic: "\<not> is_inf c" by simp_all
    have "valof b \<le> valof c" using bc fle_valof[OF nb ib nc ic] by simp
    then have "fle (fround (valof a + valof b)) (fround (valof a + valof c))"
      by (intro fround_mono) simp
    then show ?thesis
      by (simp only: fadd_finite_left[OF a nb ib] fadd_finite_right[OF a nc ic])
  qed
qed

lemma fmul_pos_const:
  assumes "\<not> is_nan a" "\<not> is_inf a" "0 < r"
  shows "fle (fmul a (Fin r)) d = fle (fround (valof a * r)) d"
    and "fle d (fmul a (Fin r)) = fle d (fround (valof a * r))"
proof -
  have z: "is_zero a \<Longrightarrow> valof a = 0" by (cases a) simp_all
  have nz: "\<not> is_zero a \<Longrightarrow> fmul a (Fin r) = fround (valof a * r)"
    using assms by (simp add: fmul_def)
  have "is_zero a \<Longrightarrow> is_zero (fmul a (Fin r))"
    using assms by (simp add: fmul_def is_zero_mk_zero)
  then show "fle (fmul a (Fin r)) d = fle (fround (valof a * r)) d"
    and "fle d (fmul a (Fin r)) = fle d (fround (valof a * r))"
    using z nz fle_zero_left[of "fmul a (Fin r)" "Fin 0" d]
      fle_zero_right[of "fmul a (Fin r)" "Fin 0" d]
    by (cases "is_zero a"; simp add: fround_0)+
qed

lemma fmul_pos_const_not_nan: "\<not> is_nan a \<Longrightarrow> 0 < r \<Longrightarrow> \<not> is_nan (fmul a (Fin r))"
  by (cases a) (simp_all add: fmul_def fround_not_nan mk_zero_def mk_inf_def)

lemma fmul_mono_left:
  assumes r: "0 < r" and ab: "fle a b"
  shows "fle (fmul a (Fin r)) (fmul b (Fin r))"
proof -
  have na: "\<not> is_nan a" and nb: "\<not> is_nan b" using fle_not_nan[OF ab] by simp_all
  show ?thesis
  proof (cases "is_inf a \<or> is_inf b")
    case True
    have "a = NInf \<or> b = PInf" using True ab by (cases a; cases b) simp_all
    then show ?thesis
    proof
      assume "a = NInf"
      then have "fmul a (Fin r) = NInf" using r by (simp add: fmul_def mk_inf_def)
      then show ?thesis using fmul_pos_const_not_nan[OF nb r] by (simp add: fle_NInf)
    next
      assume "b = PInf"
      then have "fmul b (Fin r) = PInf" using r by (simp add: fmul_def mk_inf_def)
      then show ?thesis using fmul_pos_const_not_nan[OF na r] by (simp add: fle_PInf)
    qed
  next
    case False
    then have ia: "\<not> is_inf a" and ib: "\<not> is_inf b" by simp_all
    have "valof a \<le> valof b" using ab fle_valof[OF na ia nb ib] by simp
    then have "fle (fround (valof a * r)) (fround (valof b * r))"
      using r by (intro fround_mono) simp
    then show ?thesis
      by (simp only: fmul_pos_const(1)[OF na ia r] fmul_pos_const(2)[OF nb ib r])
  qed
qed

section \<open>Algebra of the operations\<close>


lemma fadd_commute: "fadd a b = fadd b a"
  by (cases a; cases b) (auto simp: fadd_def add.commute)

lemma flt_below_25000: "flt x (Fin 25000) \<Longrightarrow> flt x (Fin 50000)"
  by (cases x) simp_all

section \<open>Trader eligibility: the pattern-day-trader warning\<close>

text \<open>
  C9. For every trader profile, \<open>validateTraderEligibility\<close> never writes the
  pattern-day-trader warning: the warning needs an account balance below 25,000, and a
  profile with such a balance has already been rejected by the earlier check of the
  balance against 50,000. (A NaN balance passes the earlier check and fails the later
  comparison as well.)
\<close>

theorem C9_pattern_day_trader_warning_unreachable:
  "''WARNING: Pattern Day Trader restrictions apply''
     \<notin> set (fst (validateTraderEligibility trader))"
  using flt_below_25000[of "account_balance trader"]
  by (auto simp: validateTraderEligibility_def consts_eval double_of_int_def
      PATTERN_DAY_TRADER_LIMIT_def)

section \<open>Order validation\<close>

lemma rhe_above_half: "of_int n + 1 / 2 < t \<Longrightarrow> n + 1 \<le> rhe t"
proof -
  assume h: "of_int n + 1 / 2 < t"
  then have f: "n \<le> \<lfloor>t\<rfloor>" by (simp add: le_floor_iff)
  show ?thesis
  proof (cases "\<lfloor>t\<rfloor> = n")
    case True
    then have "1 / 2 < t - of_int \<lfloor>t\<rfloor>" using h by simp
    then show ?thesis using True by (simp add: rhe_def Let_def)
  next
    case False
    then have "n + 1 \<le> \<lfloor>t\<rfloor>" using f by simp
    then show ?thesis using rhe_cases[of t] by auto
  qed
qed

lemma million_eval:
  "ulp_exp 1000000 = - 33"
  "ulp_exp (1000000 + 1 / 2 ^ 33) = - 33"
  "fround (1000000 + 1 / 2 ^ 33) = Fin (1000000 + 1 / 2 ^ 33)"
  "fround (1000000 + 1 / 2 ^ 34) = Fin 1000000"
  "rne (1000000 + 1 / 2 ^ 33) = 1000000 + 1 / 2 ^ 33"
  by (simp_all add: double_eval)

lemma fle_Fin_flt: "fle (Fin c) y \<Longrightarrow> d < c \<Longrightarrow> flt (Fin d) y"
  by (cases y) simp_all

lemma fle_Fin_not_flt: "fle y (Fin c) \<Longrightarrow> \<not> flt (Fin c) y"
  by (cases y) simp_all

lemma fround_above_million:
  assumes "1000000 + 1 / 2 ^ 34 < x"
  shows "flt (Fin 1000000) (fround x)"
proof (cases "1000000 + 1 / 2 ^ 33 \<le> x")
  case True
  then have "fle (fround (1000000 + 1 / 2 ^ 33)) (fround x)" by (rule fround_mono)
  then have "fle (Fin (1000000 + 1 / 2 ^ 33)) (fround x)" by (simp only: million_eval)
  then show ?thesis by (rule fle_Fin_flt) simp
next
  case False
  then have up: "x < 1000000 + 1 / 2 ^ 33" by simp
  have lo: "1000000 < x" using assms by (simp add: less_trans[rotated])
  have "\<bar>1000000\<bar> \<le> \<bar>x\<bar>" using lo by simp
  then have "ulp_exp 1000000 \<le> ulp_exp x" by (rule ulp_exp_mono)
  then have e1: "- 33 \<le> ulp_exp x" by (simp only: million_eval)
  have "\<bar>x\<bar> \<le> \<bar>1000000 + 1 / 2 ^ 33\<bar>" using lo up by simp
  then have "ulp_exp x \<le> ulp_exp (1000000 + 1 / 2 ^ 33)" by (rule ulp_exp_mono)
  then have e2: "ulp_exp x \<le> - 33" by (simp only: million_eval)
  have e: "ulp_exp x = - 33" using e1 e2 by simp
  have u: "(2::real) powi (- 33) = 1 / 2 ^ 33"
    by (simp add: power_int_minus inverse_eq_divide)
  have "of_int 8589934592000000 + 1 / 2 < x / (1 / 2 ^ 33)" using assms by simp
  then have "8589934592000000 + 1 \<le> rhe (x / (1 / 2 ^ 33))" by (rule rhe_above_half)
  then have "(8589934592000001::real) \<le> of_int (rhe (x / (1 / 2 ^ 33)))" by linarith
  then have "8589934592000001 * (1 / 2 ^ 33) \<le> of_int (rhe (x / (1 / 2 ^ 33))) * (1 / 2 ^ 33 :: real)"
    by (intro mult_right_mono) simp_all
  then have ge: "1000000 + 1 / 2 ^ 33 \<le> rne x"
    by (simp add: rne_def e u Let_def)
  have "rne x \<le> rne (1000000 + 1 / 2 ^ 33)" using up by (intro rne_mono) simp
  then have le: "rne x \<le> 1000000 + 1 / 2 ^ 33" by (simp only: million_eval)
  have "fround x = Fin (rne x)"
    using ge le by (simp add: fround_def Let_def)
  then show ?thesis using ge by simp
qed

lemma fround_at_most_million:
  assumes "x \<le> 1000000 + 1 / 2 ^ 34"
  shows "\<not> flt (Fin 1000000) (fround x)"
proof -
  have "fle (fround x) (fround (1000000 + 1 / 2 ^ 34))" using assms by (rule fround_mono)
  then have "fle (fround x) (Fin 1000000)" by (simp only: million_eval)
  then show ?thesis by (rule fle_Fin_not_flt)
qed

text \<open>
  The order-size check on the rounded product, in terms of the exact product: it fires
  exactly above \<open>1,000,000 + 2 ^ -34\<close>, half a unit in the last place over the limit.
\<close>

lemma order_value_guard_exact:
  "fgt (fmul (Fin a) (Fin b)) MAX_ORDER_SIZE = (1000000 + 1 / 2 ^ 34 < a * b)"
proof (cases "a = 0 \<or> b = 0")
  case True
  then show ?thesis by (auto simp: fmul_def fgt_def consts_eval mk_zero_def)
next
  case False
  then have m: "fmul (Fin a) (Fin b) = fround (a * b)" by (simp add: fmul_def)
  show ?thesis
  proof (cases "1000000 + 1 / 2 ^ 34 < a * b")
    case True
    then have "flt (Fin 1000000) (fround (a * b))" by (rule fround_above_million)
    then show ?thesis using True by (simp only: fgt_def consts_eval m)
  next
    case False
    then have "a * b \<le> 1000000 + 1 / 2 ^ 34" by simp
    then have "\<not> flt (Fin 1000000) (fround (a * b))" by (rule fround_at_most_million)
    then show ?thesis using False by (simp only: fgt_def consts_eval m)
  qed
qed

text \<open>
  C5, as amended. For every order whose order value, the product \<open>quantity * price\<close> as the
  code computes it in \<open>double\<close>, is greater than 1,000,000, and for every trader profile and
  every state of the counters, \<open>validateTradeOrder\<close> returns \<open>false\<close> (REJECTED) with the
  order-size line, whatever the other fields of the order and of the trader are. So it
  does for every order of finite quantity and price whose exact product is greater than
  \<open>1,000,000 + 2 ^ -34\<close>.
\<close>

theorem C5_order_value_above_maximum_rejected:
  "(fgt (fmul (quantity order) (price order)) MAX_ORDER_SIZE \<longrightarrow>
      validateTradeOrder mgr order trader
        = (mgr, [''REJECTED: Order size exceeds maximum allowed''], False))
   \<and> (quantity order = Fin a \<and> price order = Fin b \<and> 1000000 + 1 / 2 ^ 34 < a * b \<longrightarrow>
      validateTradeOrder mgr order trader
        = (mgr, [''REJECTED: Order size exceeds maximum allowed''], False))"
proof -
  have g: "fgt (fmul (quantity order) (price order)) MAX_ORDER_SIZE \<Longrightarrow>
      validateTradeOrder mgr order trader
        = (mgr, [''REJECTED: Order size exceeds maximum allowed''], False)"
    by (simp add: validateTradeOrder_def)
  have "quantity order = Fin a \<and> price order = Fin b \<and> 1000000 + 1 / 2 ^ 34 < a * b \<Longrightarrow>
      fgt (fmul (quantity order) (price order)) MAX_ORDER_SIZE"
    by (simp only: order_value_guard_exact)
  then show ?thesis using g by blast
qed

theorem C5_order_value_above_maximum_rejected_witness:
  "fgt (fmul (quantity (sample_order\<lparr>quantity := dlit 10000\<rparr>))
             (price (sample_order\<lparr>quantity := dlit 10000\<rparr>))) MAX_ORDER_SIZE
   \<and> quantity (sample_order\<lparr>quantity := dlit 10000\<rparr>) = Fin 10000
   \<and> price (sample_order\<lparr>quantity := dlit 10000\<rparr>) = Fin 150
   \<and> (1000000 + 1 / 2 ^ 34 :: real) < 10000 * 150
   \<and> validateTradeOrder new_manager (sample_order\<lparr>quantity := dlit 10000\<rparr>) sample_trader
       = (new_manager, [''REJECTED: Order size exceeds maximum allowed''], False)"
proof -
  have h: "fgt (fmul (quantity (sample_order\<lparr>quantity := dlit 10000\<rparr>))
                     (price (sample_order\<lparr>quantity := dlit 10000\<rparr>))) MAX_ORDER_SIZE"
    by (simp add: sample_order_def consts_eval fgt_def fmul_def double_eval)
  have q: "quantity (sample_order\<lparr>quantity := dlit 10000\<rparr>) = Fin 10000"
    "price (sample_order\<lparr>quantity := dlit 10000\<rparr>) = Fin 150"
    by (simp_all add: sample_order_def double_eval)
  have e: "(1000000 + 1 / 2 ^ 34 :: real) < 10000 * 150" by simp
  show ?thesis
    using h q e C5_order_value_above_maximum_rejected
      [of "sample_order\<lparr>quantity := dlit 10000\<rparr>" new_manager sample_trader 10000 150]
    by blast
qed

text \<open>
  The claim as stated, on the exact product, fails. An order for 11 units at
  90909.09090909091 is worth more than 1,000,000 as a real number, by \<open>2 ^ -35\<close>: its
  \<open>order_value\<close> is exactly 1000000.0, the first check lets it through, and for the trader
  of \<open>main\<close> the order is approved.
\<close>

theorem C5_exact_product_above_maximum_counterexample:
  "valof (quantity (sample_order\<lparr>quantity := Fin 11,
                                   price := Fin (3123612578909091 / 34359738368)\<rparr>))
     * valof (price (sample_order\<lparr>quantity := Fin 11,
                                    price := Fin (3123612578909091 / 34359738368)\<rparr>))
     > 1000000
   \<and> fmul (Fin 11) (Fin (3123612578909091 / 34359738368)) = Fin 1000000
   \<and> validateTradeOrder new_manager
         (sample_order\<lparr>quantity := Fin 11, price := Fin (3123612578909091 / 34359738368)\<rparr>)
         sample_trader
       = (new_manager\<lparr>daily_trade_counts := [123 \<mapsto> 0]\<rparr>,
          [''INFO: Checking sector concentration limits''], True)"
proof -
  have v: "fmul (Fin 11) (Fin (3123612578909091 / 34359738368)) = Fin 1000000"
    by (simp add: fmul_def double_eval)
  have "validateTradeOrder new_manager
         (sample_order\<lparr>quantity := Fin 11, price := Fin (3123612578909091 / 34359738368)\<rparr>)
         sample_trader
       = (new_manager\<lparr>daily_trade_counts := [123 \<mapsto> 0]\<rparr>,
          [''INFO: Checking sector concentration limits''], True)"
    by (simp add: validateTradeOrder_def v Let_def consts_eval lits_eval fgt_def map_index_def)
      (simp add: sample_order_def sample_trader_def new_manager_def lits_eval
        MAX_TRADES_PER_DAY_def)
  with v show ?thesis by simp
qed

lemma map_index_counts:
  "map_index (daily_trade_counts mgr) tid 0
     = ((daily_trade_counts mgr)(tid \<mapsto> trades_today mgr tid), trades_today mgr tid)"
  by (auto simp: map_index_def trades_today_def split: option.splits)

lemma counts_touch:
  "mgr\<lparr>daily_trade_counts := (daily_trade_counts mgr)(tid \<mapsto> trades_today mgr tid)\<rparr> = mgr
   \<or> (daily_trade_counts mgr tid = None
      \<and> trades_today mgr tid = 0)"
  by (cases "daily_trade_counts mgr tid") (simp_all add: trades_today_def fun_upd_idem)

lemma trades_today_touch:
  "trades_today (mgr\<lparr>daily_trade_counts := (daily_trade_counts mgr)(tid \<mapsto> trades_today mgr tid)\<rparr>) k
     = trades_today mgr k"
  by (simp add: trades_today_def)

lemma validateTradeOrder_state:
  "fst (validateTradeOrder mgr order trader) = mgr
   \<or> fst (validateTradeOrder mgr order trader)
       = mgr\<lparr>daily_trade_counts :=
               (daily_trade_counts mgr)(trader_id trader \<mapsto> trades_today mgr (trader_id trader))\<rparr>"
  by (simp add: validateTradeOrder_def Let_def map_index_counts)

lemma sample_order_value:
  "fmul (quantity sample_order) (price sample_order) = Fin 150000"
  by (simp add: sample_order_def double_of_int_def fmul_def double_eval)

text \<open>The run of \<open>main\<close>: the sample trader is eligible and the sample order approved.\<close>

lemma sample_eligible:
  "validateTraderEligibility sample_trader = ([], True)"
  by (simp add: validateTraderEligibility_def sample_trader_def consts_eval lits_eval
      MIN_TRADING_EXPERIENCE_def PATTERN_DAY_TRADER_LIMIT_def double_of_int_def double_eval)

lemma sample_valid:
  "validateTradeOrder new_manager sample_order sample_trader
     = (new_manager\<lparr>daily_trade_counts := [123 \<mapsto> 0]\<rparr>,
        [''INFO: Checking sector concentration limits''], True)"
  by (simp add: validateTradeOrder_def sample_order_value Let_def consts_eval lits_eval
        fgt_def map_index_def)
     (simp add: sample_order_def sample_trader_def new_manager_def lits_eval
        MAX_TRADES_PER_DAY_def)

lemma main_approves_sample_order:
  "main_output = [''INFO: Checking sector concentration limits'', ''ORDER APPROVED'']"
  by (simp add: main_output_def sample_eligible sample_valid)



text \<open>
  C4, as amended. \<open>validateTradeOrder\<close> never changes a stored value: the loss map is
  returned as it was, and every trader's trades-today count reads the same afterwards as
  before. The store itself is returned unchanged, or, when the trader had no entry in
  \<open>daily_trade_counts\<close> and the daily-trade-limit check was reached, with one entry
  added for that trader, holding 0 (\<open>operator[]\<close> of \<open>std::map\<close> creates it).
\<close>

theorem C4_order_validation_keeps_counter_values:
  "daily_losses (fst (validateTradeOrder mgr order trader)) = daily_losses mgr
   \<and> (\<forall>k. trades_today (fst (validateTradeOrder mgr order trader)) k = trades_today mgr k)
   \<and> (fst (validateTradeOrder mgr order trader) = mgr
      \<or> (daily_trade_counts mgr (trader_id trader) = None
         \<and> fst (validateTradeOrder mgr order trader)
             = mgr\<lparr>daily_trade_counts := (daily_trade_counts mgr)(trader_id trader \<mapsto> 0)\<rparr>))"
proof -
  let ?t = "mgr\<lparr>daily_trade_counts :=
               (daily_trade_counts mgr)(trader_id trader \<mapsto> trades_today mgr (trader_id trader))\<rparr>"
  from validateTradeOrder_state[of mgr order trader] show ?thesis
  proof
    assume "fst (validateTradeOrder mgr order trader) = mgr"
    then show ?thesis by simp
  next
    assume e: "fst (validateTradeOrder mgr order trader) = ?t"
    have "daily_losses ?t = daily_losses mgr" by simp
    moreover have "\<forall>k. trades_today ?t k = trades_today mgr k"
      by (simp add: trades_today_touch)
    moreover have "?t = mgr \<or> (daily_trade_counts mgr (trader_id trader) = None
         \<and> ?t = mgr\<lparr>daily_trade_counts := (daily_trade_counts mgr)(trader_id trader \<mapsto> 0)\<rparr>)"
      using counts_touch[of mgr "trader_id trader"] by auto
    ultimately show ?thesis unfolding e by blast
  qed
qed

text \<open>
  The claim as stated (the store after the call equals the store before it) fails for the
  trader and order of \<open>main\<close> on a fresh manager: the call leaves an entry for trader 123.
\<close>

theorem C4_counters_store_changed_counterexample:
  "fst (validateTradeOrder new_manager sample_order sample_trader)
     = new_manager\<lparr>daily_trade_counts := [123 \<mapsto> 0]\<rparr>
   \<and> fst (validateTradeOrder new_manager sample_order sample_trader) \<noteq> new_manager"
proof -
  have "fst (validateTradeOrder new_manager sample_order sample_trader)
     = new_manager\<lparr>daily_trade_counts := [123 \<mapsto> 0]\<rparr>"
    by (simp add: validateTradeOrder_def sample_order_value Let_def consts_eval lits_eval
        fgt_def map_index_def)
      (simp add: sample_order_def sample_trader_def new_manager_def lits_eval
        MAX_TRADES_PER_DAY_def)
  moreover have "new_manager\<lparr>daily_trade_counts := [123 \<mapsto> 0]\<rparr> \<noteq> new_manager"
  proof
    assume "new_manager\<lparr>daily_trade_counts := [123 \<mapsto> 0]\<rparr> = new_manager"
    then have "daily_trade_counts (new_manager\<lparr>daily_trade_counts := [123 \<mapsto> 0]\<rparr>) 123
                 = daily_trade_counts new_manager 123" by simp
    then show False by (simp add: new_manager_def)
  qed
  ultimately show ?thesis by simp
qed

section \<open>Daily loss monitoring\<close>

lemma map_index_losses:
  "map_index (daily_losses mgr) tid (dlit 0)
     = ((daily_losses mgr)(tid \<mapsto> losses_today mgr tid), losses_today mgr tid)"
  by (auto simp: map_index_def losses_today_def split: option.splits)

lemma checkDailyLossLimits_unfold:
  "checkDailyLossLimits mgr tid trade_loss =
     (let new = fadd (losses_today mgr tid) trade_loss;
          mgr' = mgr\<lparr>daily_losses := (daily_losses mgr)(tid \<mapsto> new)\<rparr>
      in if fgt new MAX_DAILY_LOSS
           then (mgr', [''TRADING SUSPENDED: Daily loss limit exceeded''], False)
         else if fgt new (Fin 375000)
           then (mgr', [''WARNING: Approaching daily loss limit''], True)
         else (mgr', [], True))"
proof -
  have "fmul MAX_DAILY_LOSS (dlit (75 / 100)) = Fin 375000"
    by (simp add: consts_eval lits_eval fmul_def double_eval)
  then show ?thesis
    by (simp add: checkDailyLossLimits_def map_index_losses Let_def)
qed

lemma losses_today_after:
  "losses_today (fst (checkDailyLossLimits mgr tid trade_loss)) tid
     = fadd (losses_today mgr tid) trade_loss"
  by (simp add: checkDailyLossLimits_unfold Let_def losses_today_def)

lemma checkDailyLossLimits_result:
  "snd (snd (checkDailyLossLimits mgr tid trade_loss))
     = (\<not> fgt (fadd (losses_today mgr tid) trade_loss) MAX_DAILY_LOSS)"
  by (simp add: checkDailyLossLimits_unfold Let_def)

lemma fadd_zero_left: "is_zero z \<Longrightarrow> r \<noteq> 0 \<Longrightarrow> fadd z (Fin r) = fround r"
  by (cases z) (simp_all add: fadd_def)

lemma sums_eval:
  "fround 100000 = Fin 100000"
  "fround 450000 = Fin 450000"
  "fadd (Fin 100000) (Fin 450000) = Fin 550000"
  "fadd (Fin 450000) (Fin 100000) = Fin 550000"
  "dlit 550000 = Fin 550000"
  "dlit 450000 = Fin 450000"
  by (simp_all add: fadd_def double_eval)

text \<open>
  C2. For every trader id, state of the counters and loss amount, \<open>checkDailyLossLimits\<close>
  first adds the loss to the trader's cumulative loss and stores the sum, whatever it then
  returns; when the new cumulative loss exceeds 500,000 it returns \<open>false\<close> with the
  suspension line, and the stored value is still the new sum (nothing is rolled back).
\<close>

theorem C2_loss_recorded_even_when_rejected:
  "daily_losses (fst (checkDailyLossLimits mgr tid trade_loss)) tid
     = Some (fadd (losses_today mgr tid) trade_loss)
   \<and> (fgt (fadd (losses_today mgr tid) trade_loss) MAX_DAILY_LOSS \<longrightarrow>
        checkDailyLossLimits mgr tid trade_loss
          = (mgr\<lparr>daily_losses := (daily_losses mgr)(tid \<mapsto> fadd (losses_today mgr tid) trade_loss)\<rparr>,
             [''TRADING SUSPENDED: Daily loss limit exceeded''], False))"
  by (simp add: checkDailyLossLimits_unfold Let_def)

theorem C2_loss_recorded_even_when_rejected_witness:
  "fgt (fadd (losses_today (new_manager\<lparr>daily_losses := [7 \<mapsto> Fin 400000]\<rparr>) 7) (Fin 200000))
       MAX_DAILY_LOSS
   \<and> checkDailyLossLimits (new_manager\<lparr>daily_losses := [7 \<mapsto> Fin 400000]\<rparr>) 7 (Fin 200000)
       = (new_manager\<lparr>daily_losses := [7 \<mapsto> Fin 600000]\<rparr>,
          [''TRADING SUSPENDED: Daily loss limit exceeded''], False)"
proof -
  have s: "fadd (losses_today (new_manager\<lparr>daily_losses := [7 \<mapsto> Fin 400000]\<rparr>) 7) (Fin 200000)
             = Fin 600000"
    by (simp add: losses_today_def fadd_def double_eval)
  have h: "fgt (fadd (losses_today (new_manager\<lparr>daily_losses := [7 \<mapsto> Fin 400000]\<rparr>) 7)
                 (Fin 200000)) MAX_DAILY_LOSS"
    by (simp add: s consts_eval fgt_def)
  show ?thesis
    using h C2_loss_recorded_even_when_rejected
              [of "new_manager\<lparr>daily_losses := [7 \<mapsto> Fin 400000]\<rparr>" 7 "Fin 200000"]
    by (simp add: s)
qed

lemma fadd_zero_binary64:
  assumes "is_zero z" "is_binary64 a" "\<not> is_zero a"
  shows "fadd z a = a" and "fadd a z = a"
proof -
  have v: "valof z = 0" using assms(1) by (cases z) simp_all
  have n: "\<not> is_nan z" "\<not> is_inf z" using assms(1) by (cases z; simp)+
  show "fadd z a = a" using assms(2,3) v n by (cases a) (simp_all add: fadd_def)
  show "fadd a z = a" using assms(2,3) v n by (cases a) (simp_all add: fadd_def)
qed

lemma fadd_zero_zero:
  assumes "is_zero z" "is_zero a"
  shows "is_zero (fadd z a)" and "fadd z a = mk_zero (sign_bit z \<and> sign_bit a)"
proof -
  have "valof z = 0" "valof a = 0" "\<not> is_nan z" "\<not> is_inf z" "\<not> is_nan a" "\<not> is_inf a"
    using assms by (cases z; cases a; simp)+
  then show "fadd z a = mk_zero (sign_bit z \<and> sign_bit a)"
    using assms by (simp add: fadd_def)
  then show "is_zero (fadd z a)" by (simp add: mk_zero_def)
qed

lemma sign_bit_mk_zero: "sign_bit (mk_zero s) = s"
  by (simp add: mk_zero_def)

lemma two_losses_from_zero_commute:
  assumes z: "is_zero z" and a: "is_binary64 a" and b: "is_binary64 b"
  shows "fadd (fadd z a) b = fadd (fadd z b) a"
proof (cases "is_zero a")
  case True
  note za = fadd_zero_zero[OF z True]
  show ?thesis
  proof (cases "is_zero b")
    case True
    note zb = fadd_zero_zero[OF z True]
    have "fadd (fadd z a) b = mk_zero ((sign_bit z \<and> sign_bit a) \<and> sign_bit b)"
      using fadd_zero_zero(2)[OF za(1) True] by (simp add: za(2) sign_bit_mk_zero)
    moreover have "fadd (fadd z b) a = mk_zero ((sign_bit z \<and> sign_bit b) \<and> sign_bit a)"
      using fadd_zero_zero(2)[OF zb(1) \<open>is_zero a\<close>] by (simp add: zb(2) sign_bit_mk_zero)
    ultimately show ?thesis by (simp add: conj_ac)
  next
    case False
    have "fadd (fadd z a) b = b" using fadd_zero_binary64(1)[OF za(1) b False] .
    moreover have "fadd (fadd z b) a = b"
      using fadd_zero_binary64(1)[OF z b False] fadd_zero_binary64(2)[OF True b False] by simp
    ultimately show ?thesis by simp
  qed
next
  case False
  have ea: "fadd z a = a" using fadd_zero_binary64(1)[OF z a False] .
  show ?thesis
  proof (cases "is_zero b")
    case True
    note zb = fadd_zero_zero[OF z True]
    have "fadd (fadd z b) a = a" using fadd_zero_binary64(1)[OF zb(1) a False] .
    moreover have "fadd (fadd z a) b = a"
      using ea fadd_zero_binary64(2)[OF True a False] by simp
    ultimately show ?thesis by simp
  next
    case nb: False
    have "fadd z b = b" using fadd_zero_binary64(1)[OF z b nb] .
    then show ?thesis using ea by (simp add: fadd_commute[of a b])
  qed
qed

text \<open>
  C6. \<open>checkDailyLossLimits\<close> accumulates: after two calls for a trader, with the losses
  \<open>a\<close> and then \<open>b\<close>, the stored cumulative loss is \<open>(old + a) + b\<close>, for every state of
  the counters and every \<open>a\<close> and \<open>b\<close>, and the second call returns \<open>false\<close> exactly when that
  sum exceeds 500,000. From a cumulative loss of zero, the losses 100,000 and then 450,000
  leave the cumulative loss 550,000 and the second call returns \<open>false\<close>; in the other
  order they leave the same cumulative loss, and so do any two losses that are binary64
  values.
\<close>

theorem C6_losses_accumulate:
  "losses_today (fst (checkDailyLossLimits
       (fst (checkDailyLossLimits mgr tid a)) tid b)) tid
     = fadd (fadd (losses_today mgr tid) a) b
   \<and> snd (snd (checkDailyLossLimits (fst (checkDailyLossLimits mgr tid a)) tid b))
       = (\<not> fgt (fadd (fadd (losses_today mgr tid) a) b) MAX_DAILY_LOSS)
   \<and> (is_zero (losses_today mgr tid) \<longrightarrow>
        losses_today (fst (checkDailyLossLimits
            (fst (checkDailyLossLimits mgr tid (dlit 100000))) tid (dlit 450000))) tid
           = dlit 550000
        \<and> snd (snd (checkDailyLossLimits
            (fst (checkDailyLossLimits mgr tid (dlit 100000))) tid (dlit 450000))) = False
        \<and> losses_today (fst (checkDailyLossLimits
            (fst (checkDailyLossLimits mgr tid (dlit 450000))) tid (dlit 100000))) tid
           = dlit 550000)
   \<and> (is_zero (losses_today mgr tid) \<and> is_binary64 a \<and> is_binary64 b \<longrightarrow>
        losses_today (fst (checkDailyLossLimits
            (fst (checkDailyLossLimits mgr tid a)) tid b)) tid
          = losses_today (fst (checkDailyLossLimits
            (fst (checkDailyLossLimits mgr tid b)) tid a)) tid)"
proof -
  have g: "losses_today (fst (checkDailyLossLimits
       (fst (checkDailyLossLimits mgr tid x)) tid y)) tid
     = fadd (fadd (losses_today mgr tid) x) y" for x y
    by (simp only: losses_today_after)
  have r: "snd (snd (checkDailyLossLimits (fst (checkDailyLossLimits mgr tid a)) tid b))
       = (\<not> fgt (fadd (fadd (losses_today mgr tid) a) b) MAX_DAILY_LOSS)"
    by (simp only: checkDailyLossLimits_result losses_today_after)
  have i: "is_zero (losses_today mgr tid) \<Longrightarrow>
        losses_today (fst (checkDailyLossLimits
            (fst (checkDailyLossLimits mgr tid (dlit 100000))) tid (dlit 450000))) tid
           = dlit 550000
        \<and> snd (snd (checkDailyLossLimits
            (fst (checkDailyLossLimits mgr tid (dlit 100000))) tid (dlit 450000))) = False
        \<and> losses_today (fst (checkDailyLossLimits
            (fst (checkDailyLossLimits mgr tid (dlit 450000))) tid (dlit 100000))) tid
           = dlit 550000"
    by (simp add: losses_today_after checkDailyLossLimits_result lits_eval sums_eval
      fadd_zero_left consts_eval fgt_def)
  have c: "is_zero (losses_today mgr tid) \<and> is_binary64 a \<and> is_binary64 b \<Longrightarrow>
        losses_today (fst (checkDailyLossLimits
            (fst (checkDailyLossLimits mgr tid a)) tid b)) tid
          = losses_today (fst (checkDailyLossLimits
            (fst (checkDailyLossLimits mgr tid b)) tid a)) tid"
    unfolding g using two_losses_from_zero_commute by blast
  show ?thesis using g[of a b] r i c by blast
qed

theorem C6_losses_accumulate_witness:
  "is_zero (losses_today new_manager 123)
   \<and> is_binary64 (dlit 100000) \<and> is_binary64 (dlit 450000)
   \<and> losses_today (fst (checkDailyLossLimits
         (fst (checkDailyLossLimits new_manager 123 (dlit 100000))) 123 (dlit 450000))) 123
        = dlit 550000
   \<and> snd (snd (checkDailyLossLimits
         (fst (checkDailyLossLimits new_manager 123 (dlit 100000))) 123 (dlit 450000))) = False
   \<and> losses_today (fst (checkDailyLossLimits
         (fst (checkDailyLossLimits new_manager 123 (dlit 100000))) 123 (dlit 450000))) 123
        = losses_today (fst (checkDailyLossLimits
         (fst (checkDailyLossLimits new_manager 123 (dlit 450000))) 123 (dlit 100000))) 123"
proof -
  have h: "is_zero (losses_today new_manager 123)"
    by (simp add: losses_today_def new_manager_def lits_eval)
  have b: "is_binary64 (dlit 100000)" "is_binary64 (dlit 450000)"
    by (simp_all add: double_eval)
  show ?thesis
    using h b C6_losses_accumulate[of new_manager 123 "dlit 100000" "dlit 450000"]
    by blast
qed

text \<open>
  C10. In a call of \<open>checkDailyLossLimits\<close> the result \<open>false\<close> and the approaching-limit
  warning exclude each other: when the warning is written the call returns \<open>true\<close>, and
  the new cumulative loss is above 375,000 and at most 500,000.
\<close>

theorem C10_rejection_and_warning_exclusive:
  "\<not> (snd (snd (checkDailyLossLimits mgr tid trade_loss)) = False
       \<and> ''WARNING: Approaching daily loss limit''
            \<in> set (fst (snd (checkDailyLossLimits mgr tid trade_loss))))
   \<and> (''WARNING: Approaching daily loss limit''
          \<in> set (fst (snd (checkDailyLossLimits mgr tid trade_loss)))
        \<longrightarrow> snd (snd (checkDailyLossLimits mgr tid trade_loss))
            \<and> fgt (fadd (losses_today mgr tid) trade_loss) (Fin 375000)
            \<and> fle (fadd (losses_today mgr tid) trade_loss) MAX_DAILY_LOSS)"
proof -
  have "fgt x (Fin 375000) \<Longrightarrow> \<not> fgt x (Fin 500000) \<Longrightarrow> fle x (Fin 500000)" for x
    by (cases x) (simp_all add: fgt_def)
  then show ?thesis
    by (auto simp: checkDailyLossLimits_unfold Let_def consts_eval)
qed

theorem C10_rejection_and_warning_exclusive_witness:
  "''WARNING: Approaching daily loss limit''
     \<in> set (fst (snd (checkDailyLossLimits
                        (new_manager\<lparr>daily_losses := [7 \<mapsto> Fin 300000]\<rparr>) 7 (Fin 100000))))
   \<and> snd (snd (checkDailyLossLimits
                 (new_manager\<lparr>daily_losses := [7 \<mapsto> Fin 300000]\<rparr>) 7 (Fin 100000)))
   \<and> fle (fadd (losses_today (new_manager\<lparr>daily_losses := [7 \<mapsto> Fin 300000]\<rparr>) 7)
                (Fin 100000)) MAX_DAILY_LOSS"
proof -
  have s: "fadd (losses_today (new_manager\<lparr>daily_losses := [7 \<mapsto> Fin 300000]\<rparr>) 7) (Fin 100000)
             = Fin 400000"
    by (simp add: losses_today_def fadd_def double_eval)
  have h: "''WARNING: Approaching daily loss limit''
     \<in> set (fst (snd (checkDailyLossLimits
                        (new_manager\<lparr>daily_losses := [7 \<mapsto> Fin 300000]\<rparr>) 7 (Fin 100000))))"
    by (simp add: checkDailyLossLimits_unfold Let_def s consts_eval fgt_def)
  show ?thesis
    using h C10_rejection_and_warning_exclusive
              [of "new_manager\<lparr>daily_losses := [7 \<mapsto> Fin 300000]\<rparr>" 7 "Fin 100000"]
    by blast
qed

section \<open>Risk score\<close>

lemma base_score_finite:
  fixes e b c :: bool
  defines "r1 \<equiv> (if e then fadd (dlit 0) (dlit (3 / 10)) else dlit 0)"
  defines "r2 \<equiv> (if b then fadd r1 (dlit (2 / 10)) else r1)"
  defines "r3 \<equiv> (if c then fadd r2 (dlit (4 / 10)) else r2)"
  shows "\<not> is_nan r3 \<and> \<not> is_inf r3"
  unfolding r3_def r2_def r1_def
  by (cases e; cases b; cases c; simp add: lits_eval fadd_def double_eval)

lemma fadd_mono_left:
  assumes "\<not> is_nan c" "\<not> is_inf c" "fle a b"
  shows "fle (fadd a c) (fadd b c)"
  using fadd_mono_right[OF assms] by (simp only: fadd_commute[of c])

text \<open>
  C8. The risk score is monotonically non-decreasing in the order's volatility score: for
  every trader and every two orders that differ in nothing but the volatility score, with
  \<open>v1 <= v2\<close>, the score \<open>calculateRiskScore\<close> returns for \<open>v1\<close> is \<open><=\<close> the score for \<open>v2\<close>
  (both comparisons are those of \<open>double\<close>; rounding to nearest is monotone).
\<close>

theorem C8_risk_score_monotone_in_volatility:
  assumes "fle v1 v2"
  shows "fle (calculateRiskScore trader (order\<lparr>volatility_score := v1\<rparr>))
             (calculateRiskScore trader (order\<lparr>volatility_score := v2\<rparr>))"
proof -
  define r1 where "r1 = (if experience_years trader < 3 then fadd (dlit 0) (dlit (3 / 10)) else dlit 0)"
  define r2 where "r2 = (if flt (account_balance trader) (dlit 100000) then fadd r1 (dlit (2 / 10)) else r1)"
  define r3 where "r3 = (if fgt (fmul (quantity order) (price order))
                               (fmul (account_balance trader) (dlit (1 / 10)))
                         then fadd r2 (dlit (4 / 10)) else r2)"
  have fin: "\<not> is_nan r3" "\<not> is_inf r3"
    using base_score_finite[where e = "experience_years trader < 3"
        and b = "flt (account_balance trader) (dlit 100000)"
        and c = "fgt (fmul (quantity order) (price order))
                     (fmul (account_balance trader) (dlit (1 / 10)))"]
    unfolding r3_def r2_def r1_def by blast+
  have score: "calculateRiskScore trader (order\<lparr>volatility_score := v\<rparr>)
      = (if sector order = ''BIOTECH'' \<or> sector order = ''CRYPTO''
         then fadd (fadd r3 (fmul v (dlit (5 / 10)))) (dlit (3 / 10))
         else fadd r3 (fmul v (dlit (5 / 10))))" for v
    by (simp add: calculateRiskScore_def Let_def r3_def r2_def r1_def)
  have half: "dlit (5 / 10) = Fin (1 / 2)" by (rule lits_eval)
  have m: "fle (fmul v1 (dlit (5 / 10))) (fmul v2 (dlit (5 / 10)))"
    unfolding half by (rule fmul_mono_left[OF _ assms]) simp
  have a: "fle (fadd r3 (fmul v1 (dlit (5 / 10)))) (fadd r3 (fmul v2 (dlit (5 / 10))))"
    by (rule fadd_mono_right[OF fin m])
  have lit: "\<not> is_nan (dlit (3 / 10))" "\<not> is_inf (dlit (3 / 10))"
    unfolding lits_eval by simp_all
  have b: "fle (fadd (fadd r3 (fmul v1 (dlit (5 / 10)))) (dlit (3 / 10)))
               (fadd (fadd r3 (fmul v2 (dlit (5 / 10)))) (dlit (3 / 10)))"
    by (rule fadd_mono_left[OF lit a])
  show ?thesis unfolding score using a b by simp
qed

theorem C8_risk_score_monotone_in_volatility_witness:
  "fle (dlit (3 / 10)) (dlit (8 / 10))
   \<and> fle (calculateRiskScore sample_trader (sample_order\<lparr>volatility_score := dlit (3 / 10)\<rparr>))
          (calculateRiskScore sample_trader (sample_order\<lparr>volatility_score := dlit (8 / 10)\<rparr>))"
proof -
  have h: "fle (dlit (3 / 10)) (dlit (8 / 10))" unfolding lits_eval by simp
  show ?thesis
    using h C8_risk_score_monotone_in_volatility[OF h, of sample_trader sample_order] by simp
qed

section \<open>Portfolio risk\<close>

lemma metrics_total:
  "portfolio_metrics abs_fn positions (dlit 0, dlit 0, dlit 0) = (tv, ul, hre)
     \<Longrightarrow> total_value_of abs_fn positions = tv"
  by (simp add: total_value_of_def)

lemma leverage_zero_total:
  "\<not> fgt (fdiv (Fin 0) b) MAX_LEVERAGE_RATIO"
  by (cases b) (auto simp: fdiv_def fgt_def mk_zero_def consts_eval)

lemma margin_zero_total:
  assumes "\<not> flt b (Fin 0)"
  shows "\<not> flt (fdiv b (Fin 0)) MARGIN_CALL_THRESHOLD"
    and "\<not> flt (fdiv b (Fin 0)) FORCED_LIQUIDATION"
  using assms by (cases b; auto simp: fdiv_def mk_inf_def consts_eval)+

lemma margin_zero_total_negative:
  assumes "flt b (Fin 0)"
  shows "flt (fdiv b (Fin 0)) MARGIN_CALL_THRESHOLD"
    and "flt (fdiv b (Fin 0)) FORCED_LIQUIDATION"
  using assms by (cases b; auto simp: fdiv_def mk_inf_def consts_eval)+

lemma metrics_nil: "total_value_of abs_fn [] = Fin 0"
  by (simp add: total_value_of_def lits_eval)

lemma total_single:
  "total_value_of abs_fn [position] = fadd (Fin 0) (current_value position)"
  by (simp add: total_value_of_def lits_eval)

text \<open>
  The three verdicts are the ones \<open>validatePortfolioRisk\<close> acts on: once the position
  loop has run to its end and the high-risk exposure is within its threshold, they decide
  the result and the three lines.
\<close>

lemma position_limits_lines:
  "set (fst (position_limits tv positions))
     \<subseteq> {''VIOLATION: Position size exceeds maximum allowed'',
         ''WARNING: Single position exceeds 20% of portfolio''}"
  by (induction positions) (auto simp: Let_def split: prod.splits)

lemma verdicts_decide_result:
  assumes m: "portfolio_metrics abs_fn positions (dlit 0, dlit 0, dlit 0) = (tv, ul, hre)"
    and f: "snd (position_limits tv positions)"
    and h: "\<not> fgt hre (fmul tv HIGH_RISK_THRESHOLD)"
    and v: "leverage_margin_verdicts abs_fn positions trader = (lev, call, liq)"
  shows "snd (validatePortfolioRisk abs_fn positions trader) = (\<not> lev \<and> \<not> liq)"
    and "(''VIOLATION: Leverage ratio exceeds maximum allowed''
            \<in> set (fst (validatePortfolioRisk abs_fn positions trader))) = lev"
    and "(''MARGIN CALL: Account below margin maintenance requirement''
            \<in> set (fst (validatePortfolioRisk abs_fn positions trader))) = (\<not> lev \<and> call)"
    and "(''FORCED LIQUIDATION: Account below liquidation threshold''
            \<in> set (fst (validatePortfolioRisk abs_fn positions trader))) = (\<not> lev \<and> liq)"
proof -
  obtain out where p: "position_limits tv positions = (out, True)"
    using f by (cases "position_limits tv positions") auto
  have o: "set out \<subseteq> {''VIOLATION: Position size exceeds maximum allowed'',
         ''WARNING: Single position exceeds 20% of portfolio''}"
    using position_limits_lines[of tv positions] p by simp
  have t: "total_value_of abs_fn positions = tv" using m by (simp add: total_value_of_def)
  have l: "lev = fgt (fdiv tv (account_balance trader)) MAX_LEVERAGE_RATIO"
    "call = flt (fdiv (account_balance trader) tv) MARGIN_CALL_THRESHOLD"
    "liq = flt (fdiv (account_balance trader) tv) FORCED_LIQUIDATION"
    using v by (simp_all add: leverage_margin_verdicts_def leverage_ratio_of_def
        margin_equity_ratio_of_def t)
  show "snd (validatePortfolioRisk abs_fn positions trader) = (\<not> lev \<and> \<not> liq)"
    using h by (simp add: validatePortfolioRisk_def m p l Let_def)
  show "(''VIOLATION: Leverage ratio exceeds maximum allowed''
            \<in> set (fst (validatePortfolioRisk abs_fn positions trader))) = lev"
    using h o by (auto simp: validatePortfolioRisk_def m p l Let_def)
  show "(''MARGIN CALL: Account below margin maintenance requirement''
            \<in> set (fst (validatePortfolioRisk abs_fn positions trader))) = (\<not> lev \<and> call)"
    using h o by (auto simp: validatePortfolioRisk_def m p l Let_def)
  show "(''FORCED LIQUIDATION: Account below liquidation threshold''
            \<in> set (fst (validatePortfolioRisk abs_fn positions trader))) = (\<not> lev \<and> liq)"
    using h o by (auto simp: validatePortfolioRisk_def m p l Let_def)
qed

text \<open>
  Over binary64 current values the total never becomes the negative zero: a total that
  is zero is \<open>Fin 0\<close>.
\<close>

lemma on_grid_0: "on_grid 0"
  unfolding on_grid_def by (rule exI[of _ 0]) simp

lemma on_grid_add: "on_grid r \<Longrightarrow> on_grid s \<Longrightarrow> on_grid (r + s)"
proof -
  assume "on_grid r" "on_grid s"
  then obtain n m :: int where "r = of_int n * 2 powi (- 1074)" "s = of_int m * 2 powi (- 1074)"
    unfolding on_grid_def by blast
  then have "r + s = of_int (n + m) * 2 powi (- 1074)" by (simp add: distrib_right)
  then show ?thesis unfolding on_grid_def by blast
qed

lemma on_grid_rne: "on_grid (rne x)"
proof -
  define k where "k = nat (ulp_exp x + 1074)"
  have "ulp_exp x = - 1074 + int k" using ulp_exp_ge[of x] by (simp add: k_def)
  then have "(2::real) powi ulp_exp x = of_int (2 ^ k) * 2 powi (- 1074)"
    by (simp only: powi2_split)
  then have "rne x = of_int (rhe (x / 2 powi ulp_exp x) * 2 ^ k) * 2 powi (- 1074)"
    by (simp add: rne_def Let_def)
  then show ?thesis unfolding on_grid_def by blast
qed

lemma rhe_of_int: "rhe (of_int n) = n"
  by (simp add: rhe_def)

lemma rne_nonzero_on_grid:
  assumes "on_grid s" "s \<noteq> 0"
  shows "rne s \<noteq> 0"
proof (cases "ulp_exp s = - 1074")
  case True
  define g :: real where "g = 2 powi (- 1074)"
  have gp: "0 < g" unfolding g_def by (rule powi2_pos)
  obtain n :: int where n: "s = of_int n * g"
    using assms(1) unfolding on_grid_def g_def by blast
  have r: "rne s = of_int (rhe (s / g)) * g"
    by (simp only: rne_def Let_def True g_def)
  have "s / g = of_int n" using n gp by simp
  then have "rne s = s" using r n by (simp only: rhe_of_int)
  then show ?thesis using assms(2) by simp
next
  case False
  then have e: "- 1074 < ulp_exp s" using ulp_exp_ge[of s] by simp
  show ?thesis
  proof (cases "0 \<le> s")
    case True
    then show ?thesis
      using rne_lower_pos[OF e True] powi2_pos[of "ulp_exp s + 52"] by linarith
  next
    case False
    then have "s \<le> 0" by simp
    then show ?thesis
      using rne_upper_neg[OF e] powi2_pos[of "ulp_exp s + 52"] by linarith
  qed
qed

lemma binary64_on_grid: "is_binary64 (Fin r) \<Longrightarrow> on_grid r"
proof -
  assume "is_binary64 (Fin r)"
  then have f: "fround r = Fin r" by simp
  show ?thesis
  proof (cases "rne r = 0")
    case True
    then have "r = 0" using f by (simp add: fround_def Let_def mk_zero_def split: if_splits)
    then show ?thesis by (simp add: on_grid_0)
  next
    case False
    then have "rne r = r" using f by (simp add: fround_def Let_def mk_inf_def split: if_splits)
    then show ?thesis using on_grid_rne[of r] by simp
  qed
qed

lemma fround_not_NZero: "on_grid s \<Longrightarrow> s \<noteq> 0 \<Longrightarrow> fround s \<noteq> NZero"
  using rne_nonzero_on_grid[of s] by (simp add: fround_def Let_def mk_inf_def)

lemma fround_on_grid: "fround s = Fin r \<Longrightarrow> on_grid r"
  using on_grid_rne[of s] on_grid_0
  by (auto simp: fround_def Let_def mk_inf_def mk_zero_def split: if_splits)

lemma accumulate_keeps_positive_zero:
  assumes acc: "acc \<noteq> NZero" "on_grid (valof acc)" and v: "is_binary64 v"
  shows "fadd acc v \<noteq> NZero" and "on_grid (valof (fadd acc v))"
proof -
  have gv: "on_grid (valof v)" using v binary64_on_grid by (cases v) (simp_all add: on_grid_0)
  have gs: "on_grid (valof acc + valof v)" using acc(2) gv by (rule on_grid_add)
  have sz: "\<not> (sign_bit acc \<and> is_zero acc)" using acc(1) by (cases acc) auto
  show "fadd acc v \<noteq> NZero"
    using sz fround_not_NZero[OF gs]
    by (cases acc; cases v) (auto simp: fadd_def mk_zero_def)
  show "on_grid (valof (fadd acc v))"
  proof (cases "fadd acc v")
    case (Fin r)
    then have "r = 0 \<or> fround (valof acc + valof v) = Fin r"
      by (auto simp: fadd_def mk_zero_def split: if_splits)
    then show ?thesis using Fin fround_on_grid on_grid_0 by auto
  qed (simp_all add: on_grid_0)
qed

lemma metrics_fst:
  "fst (portfolio_metrics abs_fn positions (t, u, h)) = foldl fadd t (map current_value positions)"
  by (induction positions arbitrary: t u h) simp_all

lemma foldl_keeps_positive_zero:
  assumes "\<forall>v \<in> set vs. is_binary64 v" "acc \<noteq> NZero" "on_grid (valof acc)"
  shows "foldl fadd acc vs \<noteq> NZero"
  using assms
proof (induction vs arbitrary: acc)
  case Nil
  then show ?case by simp
next
  case (Cons v vs)
  have "is_binary64 v" using Cons.prems(1) by simp
  note s = accumulate_keeps_positive_zero[OF Cons.prems(2,3) this]
  show ?case using Cons.IH[OF _ s] Cons.prems(1) by simp
qed

lemma total_never_negative_zero:
  assumes "\<forall>position \<in> set positions. is_binary64 (current_value position)"
  shows "total_value_of abs_fn positions \<noteq> NZero"
proof -
  have "\<forall>v \<in> set (map current_value positions). is_binary64 v" using assms by simp
  then have "foldl fadd (Fin 0) (map current_value positions) \<noteq> NZero"
    by (rule foldl_keeps_positive_zero) (simp_all add: on_grid_0)
  then show ?thesis by (simp add: total_value_of_def metrics_fst lits_eval)
qed

lemma validatePortfolioRisk_stages:
  "validatePortfolioRisk abs_fn positions trader =
     (let (out, ok) = portfolio_checks_before_leverage abs_fn positions trader;
          (lev, call, liq) = leverage_margin_verdicts abs_fn positions trader
      in
      if \<not> ok then (out, False)
      else if lev then (out @ [''VIOLATION: Leverage ratio exceeds maximum allowed''], False)
      else
        let call_out = (if call
                        then [''MARGIN CALL: Account below margin maintenance requirement'']
                        else [])
        in
        if liq
          then (out @ call_out
                  @ [''FORCED LIQUIDATION: Account below liquidation threshold''], False)
        else (out @ call_out, True))"
proof -
  obtain tv ul hre where m: "portfolio_metrics abs_fn positions (dlit 0, dlit 0, dlit 0) = (tv, ul, hre)"
    by (cases "portfolio_metrics abs_fn positions (dlit 0, dlit 0, dlit 0)") auto
  obtain out fin where p: "position_limits tv positions = (out, fin)"
    by (cases "position_limits tv positions") auto
  have t: "total_value_of abs_fn positions = tv" using m by (simp add: total_value_of_def)
  show ?thesis
    by (simp add: validatePortfolioRisk_def portfolio_checks_before_leverage_def
        leverage_margin_verdicts_def leverage_ratio_of_def margin_equity_ratio_of_def
        m p t Let_def)
qed

lemma zero_total_quotients:
  assumes "\<not> flt b (Fin 0)"
  shows "is_zero (fdiv (Fin 0) b) \<or> is_nan (fdiv (Fin 0) b)"
    and "fdiv b (Fin 0) = PInf \<or> is_nan (fdiv b (Fin 0))"
  using assms by (cases b; auto simp: fdiv_def mk_inf_def mk_zero_def)+

text \<open>
  C1, as amended. For every trader profile, its account balance not negative as in the
  data model, and every positions list whose total value as the code accumulates it, the
  \<open>double\<close> running sum of the current values, is 0, \<open>validatePortfolioRisk\<close> raises no
  division fault: \<open>0 / balance\<close> is a zero or a NaN and \<open>balance / 0\<close> is \<open>+infinity\<close> or a
  NaN. The leverage check and both margin-equity checks are evaluated on these, not
  skipped, and pass. All the other checks (unrealized loss, position size, concentration,
  high-risk exposure) still run: the output and the result are exactly those of the
  checks before the leverage ratio.
\<close>

theorem C1_zero_total_checks_pass:
  assumes "total_value_of abs_fn positions = Fin 0"
    and "\<not> flt (account_balance trader) (Fin 0)"
  shows "(is_zero (leverage_ratio_of abs_fn positions trader)
          \<or> is_nan (leverage_ratio_of abs_fn positions trader))
       \<and> (margin_equity_ratio_of abs_fn positions trader = PInf
          \<or> is_nan (margin_equity_ratio_of abs_fn positions trader))
       \<and> leverage_margin_verdicts abs_fn positions trader = (False, False, False)
       \<and> validatePortfolioRisk abs_fn positions trader
           = portfolio_checks_before_leverage abs_fn positions trader"
proof -
  note lev = leverage_zero_total[of "account_balance trader"]
  note mar = margin_zero_total[OF assms(2)]
  note quo = zero_total_quotients[OF assms(2)]
  have q: "(is_zero (leverage_ratio_of abs_fn positions trader)
          \<or> is_nan (leverage_ratio_of abs_fn positions trader))
       \<and> (margin_equity_ratio_of abs_fn positions trader = PInf
          \<or> is_nan (margin_equity_ratio_of abs_fn positions trader))"
    using quo by (simp add: leverage_ratio_of_def margin_equity_ratio_of_def assms(1))
  have v: "leverage_margin_verdicts abs_fn positions trader = (False, False, False)"
    using lev mar
    by (simp add: leverage_margin_verdicts_def leverage_ratio_of_def margin_equity_ratio_of_def
        assms(1))
  have "validatePortfolioRisk abs_fn positions trader
           = portfolio_checks_before_leverage abs_fn positions trader"
    by (cases "portfolio_checks_before_leverage abs_fn positions trader")
       (simp add: validatePortfolioRisk_stages v)
  with q v show ?thesis by simp
qed

theorem C1_zero_total_checks_pass_witness:
  "total_value_of fabs [sample_position\<lparr>current_value := Fin 1000\<rparr>,
                        sample_position\<lparr>current_value := Fin (- 1000)\<rparr>] = Fin 0
   \<and> \<not> flt (account_balance sample_trader) (Fin 0)
   \<and> margin_equity_ratio_of fabs [sample_position\<lparr>current_value := Fin 1000\<rparr>,
                        sample_position\<lparr>current_value := Fin (- 1000)\<rparr>] sample_trader = PInf
   \<and> leverage_margin_verdicts fabs [sample_position\<lparr>current_value := Fin 1000\<rparr>,
                        sample_position\<lparr>current_value := Fin (- 1000)\<rparr>] sample_trader
        = (False, False, False)
   \<and> validatePortfolioRisk fabs [sample_position\<lparr>current_value := Fin 1000\<rparr>,
                        sample_position\<lparr>current_value := Fin (- 1000)\<rparr>] sample_trader
        = portfolio_checks_before_leverage fabs [sample_position\<lparr>current_value := Fin 1000\<rparr>,
                        sample_position\<lparr>current_value := Fin (- 1000)\<rparr>] sample_trader
   \<and> validatePortfolioRisk fabs [sample_position\<lparr>current_value := Fin 1000\<rparr>,
                        sample_position\<lparr>current_value := Fin (- 1000)\<rparr>] sample_trader
        = ([''WARNING: Single position exceeds 20% of portfolio''], True)"
proof -
  have t: "total_value_of fabs [sample_position\<lparr>current_value := Fin 1000\<rparr>,
                        sample_position\<lparr>current_value := Fin (- 1000)\<rparr>] = Fin 0"
    by (simp add: total_value_of_def sample_position_def lits_eval fadd_def double_eval)
  have b: "\<not> flt (account_balance sample_trader) (Fin 0)"
    by (simp add: sample_trader_def double_eval)
  have b': "account_balance sample_trader = Fin 250000"
    by (simp add: sample_trader_def double_eval)
  have m: "margin_equity_ratio_of fabs [sample_position\<lparr>current_value := Fin 1000\<rparr>,
                        sample_position\<lparr>current_value := Fin (- 1000)\<rparr>] sample_trader = PInf"
    by (simp add: margin_equity_ratio_of_def t b' fdiv_def mk_inf_def)
  have z: "fmul (Fin 250000) (Fin (3602879701896397 / 18014398509481984)) = Fin 50000"
    "fmul (Fin 0) (Fin (3602879701896397 / 18014398509481984)) = Fin 0"
    "fmul (Fin 0) (Fin (3 / 4)) = Fin 0"
    by (simp_all add: fmul_def double_eval)
  have mt: "portfolio_metrics fabs [sample_position\<lparr>current_value := Fin 1000\<rparr>,
                        sample_position\<lparr>current_value := Fin (- 1000)\<rparr>] (dlit 0, dlit 0, dlit 0)
      = (Fin 0, Fin 0, Fin 0)"
    by (simp add: sample_position_def lits_eval double_of_int_def fadd_def double_eval)
  have p: "portfolio_checks_before_leverage fabs [sample_position\<lparr>current_value := Fin 1000\<rparr>,
                        sample_position\<lparr>current_value := Fin (- 1000)\<rparr>] sample_trader
        = ([''WARNING: Single position exceeds 20% of portfolio''], True)"
    unfolding portfolio_checks_before_leverage_def mt b'
    by (simp add: lits_normal consts_eval z fgt_def Let_def)
  show ?thesis
    using t b m p C1_zero_total_checks_pass[OF t b] by simp
qed

lemma residue_total:
  "fadd (fadd (fadd (fadd (Fin 0) (Fin 1)) (Fin (1 / 9007199254740992))) (Fin (- 1)))
        (Fin (- (1 / 9007199254740992)))
     = Fin (- (1 / 9007199254740992))"
  "fadd (fadd (Fin 0) (Fin 1)) (Fin (1 / 9007199254740992)) = Fin 1"
  by (simp_all add: fadd_def double_eval)

lemma residue_values:
  "fmul (Fin (- (1 / 9007199254740992))) (Fin (3602879701896397 / 18014398509481984))
     = Fin (- (3602879701896397 / 162259276829213363391578010288128))"
  "fmul (Fin (- (1 / 9007199254740992))) (Fin (3 / 4)) = Fin (- (3 / 36028797018963968))"
  "fmul (Fin 250000) (Fin (3602879701896397 / 18014398509481984)) = Fin 50000"
  "fdiv (Fin (- (1 / 9007199254740992))) (Fin 250000)
     = Fin (- (4722366482869645 / 10633823966279326983230456482242756608))"
  "fdiv (Fin 250000) (Fin (- (1 / 9007199254740992))) = Fin (- 2251799813685248000000)"
  by (simp_all add: fmul_def fdiv_def double_eval)

text \<open>
  The claim as stated, on the exact sum of the current values, fails, since the running
  sum is rounded at every step. The values 1, \<open>2 ^ -53\<close>, -1 (a high-risk position) and
  \<open>-(2 ^ -53)\<close> sum to 0 exactly; the code's total is \<open>-(2 ^ -53)\<close>. For the trader of
  \<open>main\<close>, balance 250000, the checks before the leverage ratio pass with two
  concentration warnings, the margin-equity ratio is -2.25e21, the margin call and the
  forced liquidation are written and the call returns \<open>false\<close>. No position has a loss, so
  \<open>abs\<close> is not called.
\<close>

theorem C1_rounded_total_counterexample:
  "exact_total_value
     [sample_position\<lparr>current_value := Fin 1\<rparr>,
      sample_position\<lparr>current_value := Fin (1 / 2 ^ 53)\<rparr>,
      sample_position\<lparr>current_value := Fin (- 1), risk_category := ''HIGH_RISK''\<rparr>,
      sample_position\<lparr>current_value := Fin (- (1 / 2 ^ 53))\<rparr>] = 0
   \<and> account_balance sample_trader = Fin 250000
   \<and> total_value_of fabs
     [sample_position\<lparr>current_value := Fin 1\<rparr>,
      sample_position\<lparr>current_value := Fin (1 / 2 ^ 53)\<rparr>,
      sample_position\<lparr>current_value := Fin (- 1), risk_category := ''HIGH_RISK''\<rparr>,
      sample_position\<lparr>current_value := Fin (- (1 / 2 ^ 53))\<rparr>] = Fin (- (1 / 2 ^ 53))
   \<and> leverage_margin_verdicts fabs
     [sample_position\<lparr>current_value := Fin 1\<rparr>,
      sample_position\<lparr>current_value := Fin (1 / 2 ^ 53)\<rparr>,
      sample_position\<lparr>current_value := Fin (- 1), risk_category := ''HIGH_RISK''\<rparr>,
      sample_position\<lparr>current_value := Fin (- (1 / 2 ^ 53))\<rparr>] sample_trader
       = (False, True, True)
   \<and> validatePortfolioRisk fabs
     [sample_position\<lparr>current_value := Fin 1\<rparr>,
      sample_position\<lparr>current_value := Fin (1 / 2 ^ 53)\<rparr>,
      sample_position\<lparr>current_value := Fin (- 1), risk_category := ''HIGH_RISK''\<rparr>,
      sample_position\<lparr>current_value := Fin (- (1 / 2 ^ 53))\<rparr>] sample_trader
       = ([''WARNING: Single position exceeds 20% of portfolio'',
           ''WARNING: Single position exceeds 20% of portfolio'',
           ''MARGIN CALL: Account below margin maintenance requirement'',
           ''FORCED LIQUIDATION: Account below liquidation threshold''], False)"
proof -
  have b: "account_balance sample_trader = Fin 250000"
    by (simp add: sample_trader_def double_eval)
  have m: "portfolio_metrics fabs
     [sample_position\<lparr>current_value := Fin 1\<rparr>,
      sample_position\<lparr>current_value := Fin (1 / 2 ^ 53)\<rparr>,
      sample_position\<lparr>current_value := Fin (- 1), risk_category := ''HIGH_RISK''\<rparr>,
      sample_position\<lparr>current_value := Fin (- (1 / 2 ^ 53))\<rparr>] (dlit 0, dlit 0, dlit 0)
     = (Fin (- (1 / 2 ^ 53)), Fin 0, Fin (- 1))"
    by (simp add: sample_position_def lits_eval double_of_int_def residue_total)
       (simp add: fadd_def double_eval)
  have t: "total_value_of fabs
     [sample_position\<lparr>current_value := Fin 1\<rparr>,
      sample_position\<lparr>current_value := Fin (1 / 2 ^ 53)\<rparr>,
      sample_position\<lparr>current_value := Fin (- 1), risk_category := ''HIGH_RISK''\<rparr>,
      sample_position\<lparr>current_value := Fin (- (1 / 2 ^ 53))\<rparr>] = Fin (- (1 / 2 ^ 53))"
    by (simp only: total_value_of_def m fst_conv)
  have v: "leverage_margin_verdicts fabs
     [sample_position\<lparr>current_value := Fin 1\<rparr>,
      sample_position\<lparr>current_value := Fin (1 / 2 ^ 53)\<rparr>,
      sample_position\<lparr>current_value := Fin (- 1), risk_category := ''HIGH_RISK''\<rparr>,
      sample_position\<lparr>current_value := Fin (- (1 / 2 ^ 53))\<rparr>] sample_trader
       = (False, True, True)"
    unfolding leverage_margin_verdicts_def leverage_ratio_of_def margin_equity_ratio_of_def t b
    by (simp add: residue_values consts_eval fgt_def)
  have p: "portfolio_checks_before_leverage fabs
     [sample_position\<lparr>current_value := Fin 1\<rparr>,
      sample_position\<lparr>current_value := Fin (1 / 2 ^ 53)\<rparr>,
      sample_position\<lparr>current_value := Fin (- 1), risk_category := ''HIGH_RISK''\<rparr>,
      sample_position\<lparr>current_value := Fin (- (1 / 2 ^ 53))\<rparr>] sample_trader
       = ([''WARNING: Single position exceeds 20% of portfolio'',
           ''WARNING: Single position exceeds 20% of portfolio''], True)"
    unfolding portfolio_checks_before_leverage_def m b
    by (simp add: lits_normal consts_eval residue_values fgt_def Let_def)
  have e: "exact_total_value
     [sample_position\<lparr>current_value := Fin 1\<rparr>,
      sample_position\<lparr>current_value := Fin (1 / 2 ^ 53)\<rparr>,
      sample_position\<lparr>current_value := Fin (- 1), risk_category := ''HIGH_RISK''\<rparr>,
      sample_position\<lparr>current_value := Fin (- (1 / 2 ^ 53))\<rparr>] = 0"
    by (simp add: exact_total_value_def)
  show ?thesis
    by (simp only: e b t v validatePortfolioRisk_stages p Let_def split_conv)
       simp
qed

text \<open>
  With the same four values and no high-risk position at all, the high-risk exposure 0 is
  above 0.75 times the negative total, and the call returns \<open>false\<close> at that check.
\<close>

lemma rounded_total_high_risk_example:
  "exact_total_value
     [sample_position\<lparr>current_value := Fin 1\<rparr>,
      sample_position\<lparr>current_value := Fin (1 / 2 ^ 53)\<rparr>,
      sample_position\<lparr>current_value := Fin (- 1)\<rparr>,
      sample_position\<lparr>current_value := Fin (- (1 / 2 ^ 53))\<rparr>] = 0
   \<and> validatePortfolioRisk fabs
     [sample_position\<lparr>current_value := Fin 1\<rparr>,
      sample_position\<lparr>current_value := Fin (1 / 2 ^ 53)\<rparr>,
      sample_position\<lparr>current_value := Fin (- 1)\<rparr>,
      sample_position\<lparr>current_value := Fin (- (1 / 2 ^ 53))\<rparr>] sample_trader
       = ([''WARNING: Single position exceeds 20% of portfolio'',
           ''WARNING: Single position exceeds 20% of portfolio'',
           ''VIOLATION: High-risk exposure exceeds threshold''], False)"
proof -
  have b: "account_balance sample_trader = Fin 250000"
    by (simp add: sample_trader_def double_eval)
  have m: "portfolio_metrics fabs
     [sample_position\<lparr>current_value := Fin 1\<rparr>,
      sample_position\<lparr>current_value := Fin (1 / 2 ^ 53)\<rparr>,
      sample_position\<lparr>current_value := Fin (- 1)\<rparr>,
      sample_position\<lparr>current_value := Fin (- (1 / 2 ^ 53))\<rparr>] (dlit 0, dlit 0, dlit 0)
     = (Fin (- (1 / 2 ^ 53)), Fin 0, Fin 0)"
    by (simp add: sample_position_def lits_eval double_of_int_def residue_total)
       (simp add: fadd_def double_eval)
  have p: "portfolio_checks_before_leverage fabs
     [sample_position\<lparr>current_value := Fin 1\<rparr>,
      sample_position\<lparr>current_value := Fin (1 / 2 ^ 53)\<rparr>,
      sample_position\<lparr>current_value := Fin (- 1)\<rparr>,
      sample_position\<lparr>current_value := Fin (- (1 / 2 ^ 53))\<rparr>] sample_trader
       = ([''WARNING: Single position exceeds 20% of portfolio'',
           ''WARNING: Single position exceeds 20% of portfolio'',
           ''VIOLATION: High-risk exposure exceeds threshold''], False)"
    unfolding portfolio_checks_before_leverage_def m b
    by (simp add: lits_normal consts_eval residue_values fgt_def Let_def)
  have e: "exact_total_value
     [sample_position\<lparr>current_value := Fin 1\<rparr>,
      sample_position\<lparr>current_value := Fin (1 / 2 ^ 53)\<rparr>,
      sample_position\<lparr>current_value := Fin (- 1)\<rparr>,
      sample_position\<lparr>current_value := Fin (- (1 / 2 ^ 53))\<rparr>] = 0"
    by (simp add: exact_total_value_def)
  show ?thesis
    by (simp only: e validatePortfolioRisk_stages p Let_def split_conv) simp
qed

text \<open>
  Outside the data model, a negative account balance makes \<open>balance / 0\<close> the negative
  infinity: with no position at all the margin call and the forced liquidation fire.
\<close>

lemma negative_balance_example:
  "validatePortfolioRisk fabs [] (sample_trader\<lparr>account_balance := Fin (- 1000)\<rparr>)
        = ([''WARNING: Portfolio losses exceed 20% of account balance'',
            ''MARGIN CALL: Account below margin maintenance requirement'',
            ''FORCED LIQUIDATION: Account below liquidation threshold''], False)"
proof -
  have n: "flt (Fin (- 1000)) (Fin 0)" by simp
  have z: "fmul (Fin (- 1000)) (Fin (3602879701896397 / 18014398509481984)) = Fin (- 200)"
    "fmul (Fin 0) (Fin (3 / 4)) = Fin 0"
    by (simp_all add: fmul_def double_eval)
  show ?thesis
    using leverage_zero_total[of "Fin (- 1000)"] margin_zero_total_negative[OF n]
    by (simp add: validatePortfolioRisk_def lits_eval lits_normal consts_eval z fgt_def Let_def)
qed

text \<open>
  The unrealized-loss warning depends on the overload of \<open>abs\<close>. The one of the C library
  truncates -50000.5 to the \<open>int\<close> -50000 and returns 50000: for a balance of 250001 the
  threshold is 50000.200000000004, and the warning that the \<open>double\<close> overload gives is
  not written.
\<close>

lemma abs_overload_changes_loss_warning:
  assumes "abs_fn (Fin (- (100001 / 2))) = Fin 50000"
  shows "validatePortfolioRisk abs_fn
           [sample_position\<lparr>current_value := Fin 0, unrealized_pnl := Fin (- (100001 / 2))\<rparr>]
           (sample_trader\<lparr>account_balance := Fin 250001\<rparr>) = ([], True)"
    and "validatePortfolioRisk fabs
           [sample_position\<lparr>current_value := Fin 0, unrealized_pnl := Fin (- (100001 / 2))\<rparr>]
           (sample_trader\<lparr>account_balance := Fin 250001\<rparr>)
         = ([''WARNING: Portfolio losses exceed 20% of account balance''], True)"
proof -
  have z: "fmul (Fin 250001) (Fin (3602879701896397 / 18014398509481984))
             = Fin (6871975161390695 / 137438953472)"
    "fmul (Fin 0) (Fin (3602879701896397 / 18014398509481984)) = Fin 0"
    "fmul (Fin 0) (Fin (3 / 4)) = Fin 0"
    "fadd (Fin 0) (Fin 0) = Fin 0"
    "fadd (Fin 0) (Fin 50000) = Fin 50000"
    "fadd (Fin 0) (Fin (100001 / 2)) = Fin (100001 / 2)"
    "fdiv (Fin 0) (Fin 250001) = Fin 0"
    "fdiv (Fin 250001) (Fin 0) = PInf"
    by (simp_all add: fmul_def fadd_def fdiv_def double_eval)
  show "validatePortfolioRisk abs_fn
           [sample_position\<lparr>current_value := Fin 0, unrealized_pnl := Fin (- (100001 / 2))\<rparr>]
           (sample_trader\<lparr>account_balance := Fin 250001\<rparr>) = ([], True)"
    using assms
    by (simp add: validatePortfolioRisk_def sample_position_def lits_eval lits_normal
        double_of_int_def consts_eval z fgt_def Let_def)
  show "validatePortfolioRisk fabs
           [sample_position\<lparr>current_value := Fin 0, unrealized_pnl := Fin (- (100001 / 2))\<rparr>]
           (sample_trader\<lparr>account_balance := Fin 250001\<rparr>)
         = ([''WARNING: Portfolio losses exceed 20% of account balance''], True)"
    by (simp add: validatePortfolioRisk_def sample_position_def lits_eval lits_normal
        double_of_int_def consts_eval z fgt_def Let_def)
qed

lemma fdiv_scale:
  assumes "0 < k"
  shows "fdiv (Fin (k * x)) (Fin (k * y)) = fdiv (Fin x) (Fin y)"
proof -
  have "(k * x < 0) = (x < 0)" "(k * y < 0) = (y < 0)" "(k * x = 0) = (x = 0)" "(k * y = 0) = (y = 0)"
    using assms by (simp_all add: mult_less_0_iff)
  moreover have "k * x / (k * y) = x / y" using assms by simp
  ultimately show ?thesis by (simp add: fdiv_def)
qed

text \<open>
  C7, as amended. For every \<open>k > 0\<close>, when the scaling is exact, that is when the scaled
  account balance is exactly \<open>k\<close> times the balance and the total value the code
  accumulates over the scaled positions is exactly \<open>k\<close> times the total it accumulates over
  the original ones, \<open>validatePortfolioRisk\<close> computes the same leverage ratio and the same
  margin-equity ratio on the scaled inputs as on the original ones, and the three
  comparisons on them have the same verdicts.
\<close>

theorem C7_exact_scaling_keeps_ratios:
  assumes "0 < k"
    and "account_balance trader = Fin b"
    and "total_value_of abs_fn positions = Fin t"
    and "account_balance (scale_trader (Fin k) trader) = Fin (k * b)"
    and "total_value_of abs_fn (scale_positions (Fin k) positions) = Fin (k * t)"
  shows "leverage_ratio_of abs_fn (scale_positions (Fin k) positions) (scale_trader (Fin k) trader)
           = leverage_ratio_of abs_fn positions trader
       \<and> margin_equity_ratio_of abs_fn (scale_positions (Fin k) positions) (scale_trader (Fin k) trader)
           = margin_equity_ratio_of abs_fn positions trader
       \<and> leverage_margin_verdicts abs_fn (scale_positions (Fin k) positions) (scale_trader (Fin k) trader)
           = leverage_margin_verdicts abs_fn positions trader"
  using assms(2-5) fdiv_scale[OF assms(1)]
  by (simp add: leverage_margin_verdicts_def leverage_ratio_of_def margin_equity_ratio_of_def)

theorem C7_exact_scaling_keeps_ratios_witness:
  "(0::real) < 2
   \<and> account_balance sample_trader = Fin 250000
   \<and> total_value_of fabs [sample_position] = Fin 700000
   \<and> account_balance (scale_trader (Fin 2) sample_trader) = Fin (2 * 250000)
   \<and> total_value_of fabs (scale_positions (Fin 2) [sample_position]) = Fin (2 * 700000)
   \<and> leverage_ratio_of fabs (scale_positions (Fin 2) [sample_position])
         (scale_trader (Fin 2) sample_trader)
        = leverage_ratio_of fabs [sample_position] sample_trader
   \<and> margin_equity_ratio_of fabs (scale_positions (Fin 2) [sample_position])
         (scale_trader (Fin 2) sample_trader)
        = margin_equity_ratio_of fabs [sample_position] sample_trader
   \<and> leverage_margin_verdicts fabs (scale_positions (Fin 2) [sample_position])
         (scale_trader (Fin 2) sample_trader)
        = leverage_margin_verdicts fabs [sample_position] sample_trader"
proof -
  have k: "(0::real) < 2" by simp
  have b: "account_balance sample_trader = Fin 250000"
    by (simp add: sample_trader_def double_eval)
  have t: "total_value_of fabs [sample_position] = Fin 700000"
    by (simp add: total_single sample_position_def fadd_def double_eval)
  have b': "account_balance (scale_trader (Fin 2) sample_trader) = Fin (2 * 250000)"
    by (simp add: scale_trader_def b fmul_def double_eval)
  have t': "total_value_of fabs (scale_positions (Fin 2) [sample_position]) = Fin (2 * 700000)"
    by (simp add: scale_positions_def total_single sample_position_def fadd_def fmul_def
        double_eval)
  show ?thesis
    using k b t b' t' C7_exact_scaling_keeps_ratios[OF k b t b' t'] by simp
qed

lemma scaled_example:
  "dlit (11 / 10) = Fin (2476979795053773 / 2251799813685248)"
  "fmul (Fin (2476979795053773 / 2251799813685248)) (Fin 70000) = Fin 77000"
  "fmul (Fin (2476979795053773 / 2251799813685248)) (Fin 700000)
     = Fin (6614249635840001 / 8589934592)"
  "fadd (Fin 0) (Fin (6614249635840001 / 8589934592)) = Fin (6614249635840001 / 8589934592)"
  "fadd (Fin 0) (Fin 700000) = Fin 700000"
  by (simp_all add: fmul_def fadd_def double_eval)

lemma scaled_ratios:
  "fdiv (Fin 700000) (Fin 70000) = Fin 10"
  "fdiv (Fin 70000) (Fin 700000) = Fin (3602879701896397 / 36028797018963968)"
  "fdiv (Fin (6614249635840001 / 8589934592)) (Fin 77000)
     = Fin (5629499534213121 / 562949953421312)"
  "fdiv (Fin 77000) (Fin (6614249635840001 / 8589934592))
     = Fin (7205759403792793 / 72057594037927936)"
  by (simp_all add: fdiv_def double_eval)

lemma scaled_portfolio_rejected:
  "snd (validatePortfolioRisk fabs [sample_position]
          (sample_trader\<lparr>account_balance := dlit 70000\<rparr>)) = True
   \<and> snd (validatePortfolioRisk fabs (scale_positions (dlit (11 / 10)) [sample_position])
          (scale_trader (dlit (11 / 10)) (sample_trader\<lparr>account_balance := dlit 70000\<rparr>)))
       = False"
  unfolding scale_positions_def scale_trader_def validatePortfolioRisk_def
  by (simp add: sample_position_def sample_trader_def consts_eval Let_def fgt_def fabs.simps
      fmul_def fadd_def fdiv_def double_of_int_def double_eval)

lemma total_pair:
  "total_value_of abs_fn [p, q] = fadd (fadd (Fin 0) (current_value p)) (current_value q)"
  by (simp add: total_value_of_def lits_eval)

lemma exact_scaling_example:
  "fmul (Fin 3) (Fin 1) = Fin 3"
  "fmul (Fin 3) (Fin 10) = Fin 30"
  "fmul (Fin 3) (Fin (13 / 18014398509481984)) = Fin (39 / 18014398509481984)"
  "fadd (fadd (Fin 0) (Fin 10)) (Fin (13 / 18014398509481984)) = Fin 10"
  "fadd (fadd (Fin 0) (Fin 30)) (Fin (39 / 18014398509481984))
     = Fin (8444249301319681 / 281474976710656)"
  "fdiv (Fin 10) (Fin 1) = Fin 10"
  "fdiv (Fin 1) (Fin 10) = Fin (3602879701896397 / 36028797018963968)"
  "fdiv (Fin (8444249301319681 / 281474976710656)) (Fin 3)
     = Fin (5629499534213121 / 562949953421312)"
  "fdiv (Fin 3) (Fin (8444249301319681 / 281474976710656))
     = Fin (7205759403792793 / 72057594037927936)"
  by (simp_all add: fmul_def fadd_def fdiv_def double_eval)

text \<open>
  Without that exactness the claim fails, since the running sum and each quotient are
  rounded. For a balance of 1, positions worth 10 and \<open>13 / 2 ^ 54\<close>, and \<open>k = 3\<close>, every
  product by \<open>k\<close> is exact, so the scaled inputs are exactly three times the original
  ones. The original total rounds to 10, the leverage ratio is exactly 10 and passes, and
  the margin-equity ratio is the \<open>double\<close> 0.1, not below the liquidation threshold. The
  scaled total \<open>30 + 39 / 2 ^ 54\<close> rounds up to 30.000000000000004, the leverage ratio
  10.000000000000002 exceeds the maximum and the margin-equity ratio 0.09999999999999999
  is below the liquidation threshold.
\<close>

theorem C7_exactly_scaled_inputs_counterexample:
  "scale_trader (Fin 3) (sample_trader\<lparr>account_balance := Fin 1\<rparr>)
     = sample_trader\<lparr>account_balance := Fin (3 * 1)\<rparr>
   \<and> scale_positions (Fin 3) [sample_position\<lparr>current_value := Fin 10\<rparr>,
                               sample_position\<lparr>current_value := Fin (13 / 2 ^ 54)\<rparr>]
     = [sample_position\<lparr>current_value := Fin (3 * 10)\<rparr>,
        sample_position\<lparr>current_value := Fin (3 * (13 / 2 ^ 54))\<rparr>]
   \<and> leverage_ratio_of fabs [sample_position\<lparr>current_value := Fin 10\<rparr>,
                              sample_position\<lparr>current_value := Fin (13 / 2 ^ 54)\<rparr>]
         (sample_trader\<lparr>account_balance := Fin 1\<rparr>)
     = Fin 10
   \<and> leverage_ratio_of fabs
         (scale_positions (Fin 3) [sample_position\<lparr>current_value := Fin 10\<rparr>,
                                   sample_position\<lparr>current_value := Fin (13 / 2 ^ 54)\<rparr>])
         (scale_trader (Fin 3) (sample_trader\<lparr>account_balance := Fin 1\<rparr>))
     = Fin (5629499534213121 / 562949953421312)
   \<and> leverage_margin_verdicts fabs [sample_position\<lparr>current_value := Fin 10\<rparr>,
                              sample_position\<lparr>current_value := Fin (13 / 2 ^ 54)\<rparr>]
         (sample_trader\<lparr>account_balance := Fin 1\<rparr>)
     = (False, True, False)
   \<and> leverage_margin_verdicts fabs
         (scale_positions (Fin 3) [sample_position\<lparr>current_value := Fin 10\<rparr>,
                                   sample_position\<lparr>current_value := Fin (13 / 2 ^ 54)\<rparr>])
         (scale_trader (Fin 3) (sample_trader\<lparr>account_balance := Fin 1\<rparr>))
     = (True, True, True)"
  by (simp add: scale_trader_def scale_positions_def leverage_margin_verdicts_def
      leverage_ratio_of_def margin_equity_ratio_of_def total_pair exact_scaling_example
      consts_eval fgt_def)

text \<open>
  When the products by \<open>k\<close> are themselves rounded, ordinary amounts show the same: for a
  balance of 70,000, one position worth 700,000 and \<open>k = 1.1\<close>, the scaled balance is 77000
  and the scaled value 770000.0000000001; the leverage ratio goes from exactly 10 to
  10.000000000000002 and the margin-equity ratio from 0.1 to 0.09999999999999999. The
  original portfolio is accepted and the scaled one rejected.
\<close>

lemma scaling_by_eleven_tenths_example:
  "leverage_ratio_of fabs [sample_position] (sample_trader\<lparr>account_balance := dlit 70000\<rparr>)
     = Fin 10
   \<and> leverage_ratio_of fabs (scale_positions (dlit (11 / 10)) [sample_position])
         (scale_trader (dlit (11 / 10)) (sample_trader\<lparr>account_balance := dlit 70000\<rparr>))
     = Fin (5629499534213121 / 562949953421312)
   \<and> leverage_margin_verdicts fabs [sample_position]
         (sample_trader\<lparr>account_balance := dlit 70000\<rparr>)
     = (False, True, False)
   \<and> leverage_margin_verdicts fabs (scale_positions (dlit (11 / 10)) [sample_position])
         (scale_trader (dlit (11 / 10)) (sample_trader\<lparr>account_balance := dlit 70000\<rparr>))
     = (True, True, True)
   \<and> snd (validatePortfolioRisk fabs [sample_position]
          (sample_trader\<lparr>account_balance := dlit 70000\<rparr>)) = True
   \<and> snd (validatePortfolioRisk fabs (scale_positions (dlit (11 / 10)) [sample_position])
          (scale_trader (dlit (11 / 10)) (sample_trader\<lparr>account_balance := dlit 70000\<rparr>)))
       = False"
proof -
  have b: "dlit 70000 = Fin 70000" "dlit 700000 = Fin 700000" by (simp_all add: double_eval)
  have t: "total_value_of fabs [sample_position] = Fin 700000"
    by (simp add: total_single sample_position_def b scaled_example)
  have t': "total_value_of fabs (scale_positions (dlit (11 / 10)) [sample_position])
              = Fin (6614249635840001 / 8589934592)"
    unfolding scale_positions_def
    by (simp add: total_single sample_position_def b scaled_example)
  have b': "account_balance (scale_trader (dlit (11 / 10))
              (sample_trader\<lparr>account_balance := dlit 70000\<rparr>)) = Fin 77000"
    unfolding scale_trader_def
    by (simp add: b scaled_example)
  have "leverage_ratio_of fabs [sample_position] (sample_trader\<lparr>account_balance := dlit 70000\<rparr>)
     = Fin 10
   \<and> leverage_ratio_of fabs (scale_positions (dlit (11 / 10)) [sample_position])
         (scale_trader (dlit (11 / 10)) (sample_trader\<lparr>account_balance := dlit 70000\<rparr>))
     = Fin (5629499534213121 / 562949953421312)
   \<and> leverage_margin_verdicts fabs [sample_position]
         (sample_trader\<lparr>account_balance := dlit 70000\<rparr>)
     = (False, True, False)
   \<and> leverage_margin_verdicts fabs (scale_positions (dlit (11 / 10)) [sample_position])
         (scale_trader (dlit (11 / 10)) (sample_trader\<lparr>account_balance := dlit 70000\<rparr>))
     = (True, True, True)"
    unfolding leverage_margin_verdicts_def leverage_ratio_of_def margin_equity_ratio_of_def
      t t' b'
    by (simp add: b scaled_ratios consts_eval fgt_def)
  then show ?thesis using scaled_portfolio_rejected by simp
qed

end
